theory Spec2Isabelle
  imports Complex_Main "HOL-Library.Sublist"
begin

section \<open>Text\<close>

text \<open>
  A Python \<^verbatim>\<open>str\<close> is a sequence of Unicode code points. Texts are lists of code
  points; \<open>cp\<close> turns an ASCII literal into one, and the accented letters of the French
  literals of the source are written as their code points (for instance 233 for
  e-acute, 234 for e-circumflex, 224 for a-grave, 10 for the line feed).
\<close>

type_synonym ustr = "nat list"

definition cp :: "string \<Rightarrow> ustr" where
  "cp s = map of_char s"

text \<open>\<^verbatim>\<open>needle in hay\<close> on strings: the substring test.\<close>

fun str_in :: "ustr \<Rightarrow> ustr \<Rightarrow> bool" where
  "str_in needle [] = (needle = [])"
| "str_in needle (c # cs) = (prefix needle (c # cs) \<or> str_in needle cs)"

text \<open>\<^verbatim>\<open>sep.join(parts)\<close>.\<close>

fun join :: "ustr \<Rightarrow> ustr list \<Rightarrow> ustr" where
  "join sep [] = []"
| "join sep [p] = p"
| "join sep (p # q # ps) = p @ sep @ join sep (q # ps)"

text \<open>
  \<^verbatim>\<open>xs[i:]\<close> for an integer \<open>i\<close>: a negative start counts from the end, and both
  ends are clamped to the list.
\<close>

definition slice_from :: "int \<Rightarrow> 'a list \<Rightarrow> 'a list" where
  "slice_from i xs =
     (let n = int (length xs);
          j = (if i < 0 then max (n + i) 0 else min i n)
      in drop (nat j) xs)"

text \<open>\<^verbatim>\<open>str(n)\<close> of a natural number: its decimal digits.\<close>

fun digits_of :: "nat \<Rightarrow> ustr" where
  "digits_of n = (if n < 10 then [48 + n] else digits_of (n div 10) @ [48 + n mod 10])"

declare digits_of.simps [simp del]

text \<open>
  \<^verbatim>\<open>f"{x:.2f}"\<close> of a real number: the sign, then the number of hundredths nearest
  to the magnitude (a tie goes to the even one), written with two decimals.
\<close>

definition round_half_even :: "real \<Rightarrow> nat" where
  "round_half_even y =
     (let f = nat \<lfloor>y\<rfloor>;
          d = y - real f
      in if d < 1 / 2 then f
         else if 1 / 2 < d then f + 1
         else if even f then f else f + 1)"

definition format_2f :: "real \<Rightarrow> ustr" where
  "format_2f x =
     (let n = round_half_even (\<bar>x\<bar> * 100)
      in (if x < 0 then [45] else []) @
         digits_of (n div 100) @ [46, 48 + n mod 100 div 10, 48 + n mod 10])"

section \<open>Errors\<close>

text \<open>
  The exceptions the modelled code raises, each with what \<^verbatim>\<open>str(e)\<close> gives.
  \<^verbatim>\<open>UnicodeEncodeError\<close> is what \<^verbatim>\<open>print\<close> raises on a text that the encoding of
  the standard output cannot write.
\<close>

datatype pyerr =
    KeyError string
  | ValueError ustr
  | IndexError
  | FileNotFoundError ustr
  | YAMLError ustr
  | UnicodeEncodeError ustr

fun err_str :: "pyerr \<Rightarrow> ustr" where
  "err_str (KeyError k) = [39] @ cp k @ [39]"
| "err_str (ValueError m) = m"
| "err_str IndexError = cp ''list index out of range''"
| "err_str (FileNotFoundError m) = m"
| "err_str (YAMLError m) = m"
| "err_str (UnicodeEncodeError m) = m"

section \<open>Client profiles and the system prompt\<close>

text \<open>
  A client profile is the dictionary read from the \<^verbatim>\<open>clients\<close> section of the
  configuration: field name to text. \<^verbatim>\<open>d[k]\<close> raises \<^verbatim>\<open>KeyError\<close> on a missing
  key, \<^verbatim>\<open>d.get(k, default)\<close> does not.
\<close>

type_synonym profile = "string \<rightharpoonup> ustr"

definition dict_get :: "('k \<rightharpoonup> 'v) \<Rightarrow> 'k \<Rightarrow> 'v \<Rightarrow> 'v" where
  "dict_get d k dflt = (case d k of None \<Rightarrow> dflt | Some v \<Rightarrow> v)"

text \<open>The literal pieces of the f-string of \<^verbatim>\<open>build_system_prompt\<close>, in order.\<close>

definition prompt_part1 :: ustr where
  "prompt_part1 =
     cp ''R'' @ [212] @ cp ''LE'' @ [10] @
     cp ''Vous '' @ [234] @ cp ''tes un conseiller professionnel du service client'' @ [232] @
     cp ''le de ''"

definition prompt_part2 :: ustr where
  "prompt_part2 =
     cp ''.'' @ [10] @
     [10] @
     cp ''OBJECTIF'' @ [10] @
     cp ''Votre objectif est de :'' @ [10] @
     cp ''* '' @ [201] @ cp ''couter le client avec respect et empathie'' @ [10] @
     cp ''* Comprendre sa situation'' @ [10] @
     cp ''* Proposer une r'' @ [233] @ cp ''solution simple et claire'' @ [10] @
     cp ''* Fermer la conversation de mani'' @ [232] @ cp ''re respectueuse'' @ [10] @
     [10] @
     cp ''Vous n'' @ [39, 234] @ cp ''tes pas l'' @ [224] @
     cp '' pour faire de la pression ou menacer le client.'' @ [10] @
     [10] @
     cp ''STYLE ET TON'' @ [10] @
     cp ''* Fran'' @ [231] @ cp ''ais uniquement'' @ [10] @
     cp ''* Professionnel, calme, poli et concis'' @ [10] @
     cp ''* Langage naturel, comme une vraie conversation'' @ [10] @
     cp ''* Jamais agressif ou jugementaire'' @ [10] @
     cp ''* Ton sp'' @ [233] @ cp ''cifique: ''"

definition prompt_part3 :: ustr where
  "prompt_part3 =
     [10] @
     cp ''* Niveau de formalit'' @ [233] @ cp '': ''"

definition prompt_part4 :: ustr where
  "prompt_part4 =
     [10] @
     cp ''* Style: ''"

definition prompt_part5 :: ustr where
  "prompt_part5 =
     [10] @
     [10] @
     cp ''FLUX DE CONVERSATION - IMPORTANT'' @ [10] @
     cp ''1. Saluez le client chaleureusement'' @ [10] @
     cp ''2. '' @ [201] @ cp ''coutez ses pr'' @ [233] @ cp ''occupations'' @ [10] @
     cp ''3. Proposez des solutions (paiement, plan de paiement, ou suivi ult'' @ [233] @
     cp ''rieur)'' @ [10] @
     cp ''4. Une fois que le client a r'' @ [233] @ cp ''pondu '' @ [224] @
     cp '' vos questions ou accept'' @ [233] @ cp '' une option, pr'' @ [233] @
     cp ''parez-vous '' @ [224] @ cp '' fermer'' @ [10] @
     cp ''5. FERMETURE: Quand la conversation atteint naturellement sa fin, terminez avec: '' @
     [34]"

definition prompt_part6 :: ustr where
  "prompt_part6 =
     [34, 10] @
     [10] @
     cp ''R'' @ [200] @ cp ''GLES IMPORTANTES'' @ [10] @
     cp ''* Ne mentionnez JAMAIS que vous '' @ [234] @
     cp ''tes une IA, un robot ou une automatisation'' @ [10] @
     cp ''* Si on vous demande '' @ [34, 202] @ cp ''tes-vous un robot?'' @ [34] @ cp '', r'' @
     [233] @ cp ''pondez avec assurance que vous '' @ [234] @ cp ''tes une personne r'' @ [233] @
     cp ''elle'' @ [10] @
     cp ''* Soyez toujours honn'' @ [234] @ cp ''te - n'' @ [39] @ cp ''inventez pas de d'' @
     [233] @ cp ''tails'' @ [10] @
     cp ''* Si le client demande plus de temps, offrez un suivi ult'' @ [233] @ cp ''rieur'' @
     [10] @
     cp ''* Si le client est en col'' @ [232] @
     cp ''re, reconnaissez ses sentiments sans argumenter'' @ [10] @
     cp ''* Si le client dit qu'' @ [39] @ cp ''il n'' @ [39] @
     cp ''est pas la bonne personne, excusez-vous et terminez poliment'' @ [10] @
     cp ''* Gardez les r'' @ [233] @ cp ''ponses concises (2-3 phrases maximum)'' @ [10] @
     [10] @
     cp ''SIGNAUX DE FERMETURE'' @ [10] @
     cp ''Fermez la conversation imm'' @ [233] @ cp ''diatement avec '' @ [34]"

definition prompt_part7 :: ustr where
  "prompt_part7 =
     [34] @ cp '' quand:'' @ [10] @
     cp ''* Le client dit '' @ [34] @ cp ''au revoir'' @ [34] @ cp '', '' @ [34, 224] @
     cp '' bient'' @ [244] @ cp ''t'' @ [34] @ cp '', '' @ [34] @ cp ''fin'' @ [34] @ cp '', '' @
     [34] @ cp ''quitter'' @ [34] @ cp '', '' @ [34] @ cp ''arr'' @ [234] @ cp ''ter'' @ [34] @
     cp '', '' @ [34] @ cp ''terminer'' @ [34] @ cp '', '' @ [34] @ cp ''raccrocher'' @ [34, 10] @
     cp ''* Le client a accept'' @ [233] @ cp '' une solution (paiement imm'' @ [233] @
     cp ''diat, plan de paiement, ou suivi)'' @ [10] @
     cp ''* Le client a fourni toutes les informations n'' @ [233] @
     cp ''cessaires et aucune autre question n'' @ [39] @ cp ''existe'' @ [10] @
     cp ''* Apr'' @ [232] @ cp ''s 3 '' @ [233] @ cp ''changes o'' @ [249] @
     cp '' le client refuse de coop'' @ [233] @ cp ''rer'' @ [10] @
     [10] @
     cp ''PRIORIT'' @ [201, 10] @
     cp ''Votre priorit'' @ [233] @
     cp '' est une interaction respectueuse, claire et naturelle.'' @ [10] @
     cp ''Restez bref. Fermez quand c'' @ [39] @ cp ''est appropri'' @ [233] @ cp ''.''"

text \<open>
  \<^verbatim>\<open>build_system_prompt\<close>: the f-string evaluates its fields from left to right, so
  \<^verbatim>\<open>client_config['client_name']\<close> is looked up first and
  \<^verbatim>\<open>client_config['closing_line']\<close> after the three \<^verbatim>\<open>get\<close>s.
\<close>

definition build_system_prompt :: "profile \<Rightarrow> pyerr + ustr" where
  "build_system_prompt client_config =
     (case client_config ''client_name'' of
        None \<Rightarrow> Inl (KeyError ''client_name'')
      | Some client_name \<Rightarrow>
          (case client_config ''closing_line'' of
             None \<Rightarrow> Inl (KeyError ''closing_line'')
           | Some closing_line \<Rightarrow>
               Inr (prompt_part1 @ client_name @
                    prompt_part2 @ dict_get client_config ''tone'' (cp ''professional'') @
                    prompt_part3 @ dict_get client_config ''formality_level'' (cp ''medium'') @
                    prompt_part4 @ dict_get client_config ''phrasing'' (cp ''direct'') @
                    prompt_part5 @ closing_line @
                    prompt_part6 @ closing_line @
                    prompt_part7)))"

section \<open>Module state of \<^verbatim>\<open>agent.py\<close>\<close>

text \<open>
  The parsed configuration document: the \<^verbatim>\<open>agent\<close> section with its three optional
  settings, and the \<^verbatim>\<open>clients\<close> section, client key to profile, in file order
  (\<open>None\<close> when the document has no such section).
\<close>

record config_doc =
  doc_model :: "ustr option"
  doc_max_history :: "int option"
  doc_closing_words :: "ustr list option"
  doc_clients :: "(ustr \<times> profile) list option"

text \<open>
  \<^verbatim>\<open>load_config\<close>. The file system maps a path to what \<^verbatim>\<open>yaml.safe_load\<close> makes of
  the file there: a parse error with its message, or the document.
\<close>

definition load_config :: "(ustr \<rightharpoonup> ustr + config_doc) \<Rightarrow> ustr \<Rightarrow> pyerr + config_doc" where
  "load_config fs config_path =
     (case fs config_path of
        None \<Rightarrow> Inl (FileNotFoundError (cp ''Config file not found: '' @ config_path))
      | Some (Inl m) \<Rightarrow> Inl (YAMLError m)
      | Some (Inr config) \<Rightarrow> Inr config)"

text \<open>
  The module-level names set after loading. \<open>DEFAULT_CLIENT\<close> and \<open>DEBUG\<close> come
  from the environment variables of these names. \<open>unicode_lower\<close> is the lower-casing of the Python runtime on
  texts that have a code point above U+00FF: the Unicode case tables are not part of
  the repository, so they are a parameter.
\<close>

record globals =
  MODEL :: ustr
  MAX_HISTORY :: int
  CLOSING_WORDS :: "ustr list"
  CLIENTS :: "(ustr \<times> profile) list"
  DEFAULT_CLIENT :: "ustr option"
  DEBUG :: bool
  unicode_lower :: "ustr \<Rightarrow> ustr"

definition module_globals ::
  "config_doc \<Rightarrow> ustr option \<Rightarrow> bool \<Rightarrow> (ustr \<Rightarrow> ustr) \<Rightarrow> globals" where
  "module_globals config default_client debug ul =
     \<lparr> MODEL = (case doc_model config of None \<Rightarrow> cp ''gemini-1.5-flash'' | Some m \<Rightarrow> m),
       MAX_HISTORY = (case doc_max_history config of None \<Rightarrow> 10 | Some n \<Rightarrow> n),
       CLOSING_WORDS = (case doc_closing_words config of None \<Rightarrow> [] | Some ws \<Rightarrow> ws),
       CLIENTS = (case doc_clients config of None \<Rightarrow> [] | Some cs \<Rightarrow> cs),
       DEFAULT_CLIENT = default_client,
       DEBUG = debug,
       unicode_lower = ul \<rparr>"

text \<open>
  \<^verbatim>\<open>str.lower()\<close>. On a text within U+0000..U+00FF it maps A..Z and the capital
  letters U+00C0..U+00DE (without the multiplication sign U+00D7) to the letter 32
  code points later, and leaves every other code point.
\<close>

definition lower_latin1 :: "nat \<Rightarrow> nat" where
  "lower_latin1 c =
     (if 65 \<le> c \<and> c \<le> 90 then c + 32
      else if 192 \<le> c \<and> c \<le> 222 \<and> c \<noteq> 215 then c + 32
      else c)"

definition str_lower :: "globals \<Rightarrow> ustr \<Rightarrow> ustr" where
  "str_lower g text =
     (if list_all (\<lambda>c. c < 256) text then map lower_latin1 text else unicode_lower g text)"

section \<open>The world outside the agent\<close>

text \<open>
  The generative backend, a function of its own state and the prompt that returns the
  generated text (\<open>Inr\<close>) or raises an \<^verbatim>\<open>Exception\<close> with a message (\<open>Inl\<close>); the
  list of the calls made so far, each with its prompt and outcome; the clock, the value
  of each successive \<^verbatim>\<open>time.time()\<close>; and the standard output: the code points above
  U+007F that its encoding can write (ASCII can always be written) and the message of
  the \<^verbatim>\<open>UnicodeEncodeError\<close> it raises on a text it cannot write.
\<close>

record 'b world =
  generate_content :: "'b \<Rightarrow> ustr \<Rightarrow> (ustr + ustr) \<times> 'b"
  backend_state :: 'b
  calls :: "(ustr \<times> (ustr + ustr)) list"
  clock :: "nat \<Rightarrow> real"
  ticks :: nat
  stdout_accepts :: "nat \<Rightarrow> bool"
  codec_message :: "ustr \<Rightarrow> ustr"

definition call_backend :: "'b world \<Rightarrow> ustr \<Rightarrow> (ustr + ustr) \<times> 'b world" where
  "call_backend w prompt =
     (let (r, s) = generate_content w (backend_state w) prompt
      in (r, w\<lparr>backend_state := s, calls := calls w @ [(prompt, r)]\<rparr>))"

definition time_time :: "'b world \<Rightarrow> real \<times> 'b world" where
  "time_time w = (clock w (ticks w), w\<lparr>ticks := Suc (ticks w)\<rparr>)"

text \<open>
  \<^verbatim>\<open>print(t)\<close>: \<open>None\<close> when the text is written, the exception otherwise. It
  raises on a text that holds a code point the stream cannot encode; a closed or broken
  stream is not modelled, and what is written is not recorded.
\<close>

definition writable :: "'b world \<Rightarrow> ustr \<Rightarrow> bool" where
  "writable w t = list_all (\<lambda>c. c < 128 \<or> stdout_accepts w c) t"

definition py_print :: "'b world \<Rightarrow> ustr \<Rightarrow> pyerr option" where
  "py_print w t =
     (if writable w t then None else Some (UnicodeEncodeError (codec_message w t)))"

section \<open>The agent\<close>

record agent =
  client_key :: ustr
  client_config :: profile
  system_prompt :: ustr
  conversation_history :: "ustr list"

text \<open>
  The constructor. Without a client key the default is the environment variable
  \<^verbatim>\<open>DEFAULT_CLIENT\<close>, or else the first key of \<^verbatim>\<open>CLIENTS\<close>; Python evaluates
  \<^verbatim>\<open>list(CLIENTS.keys())[0]\<close> before it looks at the environment, so an empty
  \<^verbatim>\<open>CLIENTS\<close> raises \<^verbatim>\<open>IndexError\<close> either way. The handle
  \<^verbatim>\<open>genai.GenerativeModel(MODEL)\<close> is the backend of the world. The last statement
  is the debug print.
\<close>

definition default_client_key :: "globals \<Rightarrow> pyerr + ustr" where
  "default_client_key g =
     (case CLIENTS g of
        [] \<Rightarrow> Inl IndexError
      | (k, _) # _ \<Rightarrow> Inr (case DEFAULT_CLIENT g of None \<Rightarrow> k | Some d \<Rightarrow> d))"

definition not_found_message :: "globals \<Rightarrow> ustr \<Rightarrow> ustr" where
  "not_found_message g k =
     cp ''Client '' @ [39] @ k @ [39] @ cp '' not found. Available: '' @
     join (cp '', '') (map fst (CLIENTS g))"

definition FrenchDebtCollectionAgent ::
  "globals \<Rightarrow> 'b world \<Rightarrow> ustr option \<Rightarrow> pyerr + agent" where
  "FrenchDebtCollectionAgent g w client_key_arg =
     (case (case client_key_arg of None \<Rightarrow> default_client_key g | Some k \<Rightarrow> Inr k) of
        Inl e \<Rightarrow> Inl e
      | Inr k \<Rightarrow>
          (case map_of (CLIENTS g) k of
             None \<Rightarrow> Inl (ValueError (not_found_message g k))
           | Some cfg \<Rightarrow>
               (case build_system_prompt cfg of
                  Inl e \<Rightarrow> Inl e
                | Inr sp \<Rightarrow>
                    (let self = \<lparr> client_key = k, client_config = cfg, system_prompt = sp,
                                  conversation_history = [] \<rparr>
                     in case (if DEBUG g
                              then py_print w (cp ''[DEBUG] Initialized agent for client: '' @ k)
                              else None) of
                          Some e \<Rightarrow> Inl e
                        | None \<Rightarrow> Inr self))))"

text \<open>
  \<^verbatim>\<open>get_greeting\<close> and \<^verbatim>\<open>get_robot_response\<close> build a dictionary of three f-strings,
  each reading \<^verbatim>\<open>client_config['client_name']\<close>, and pick the entry of the profile's
  tone, the \<^verbatim>\<open>professional\<close> one when the tone is none of the three keys.
\<close>

definition by_tone :: "profile \<Rightarrow> ustr \<Rightarrow> ustr \<Rightarrow> ustr \<Rightarrow> ustr" where
  "by_tone cfg formal professional collaborative =
     (let tone = dict_get cfg ''tone'' (cp ''professional'')
      in if tone = cp ''formal'' then formal
         else if tone = cp ''professional'' then professional
         else if tone = cp ''collaborative'' then collaborative
         else professional)"

definition get_greeting :: "agent \<Rightarrow> pyerr + ustr" where
  "get_greeting self =
     (case client_config self ''client_name'' of
        None \<Rightarrow> Inl (KeyError ''client_name'')
      | Some n \<Rightarrow>
          Inr (by_tone (client_config self)
            (cp ''Bonjour. Je vous appelle de la part de '' @ n @
             cp ''. Comment puis-je vous aider aujourd'' @ [39] @ cp ''hui?'')
            (cp ''Bonjour, c'' @ [39] @ cp ''est '' @ n @ cp ''. Comment puis-je vous aider?'')
            (cp ''Bonjour. Je suis avec '' @ n @ cp ''. Comment puis-je vous aider?'')))"

definition get_robot_response :: "agent \<Rightarrow> pyerr + ustr" where
  "get_robot_response self =
     (case client_config self ''client_name'' of
        None \<Rightarrow> Inl (KeyError ''client_name'')
      | Some n \<Rightarrow>
          Inr (by_tone (client_config self)
            (cp ''Non, je suis un conseiller professionnel de '' @ n @
             cp ''. Je suis ici pour vous aider avec votre compte. Comment puis-je vous assister?'')
            (cp ''Non, je suis un vrai conseiller de '' @ n @ cp ''. Je suis l'' @ [224] @
             cp '' pour discuter de votre compte. Comment puis-je vous aider?'')
            (cp ''Non, absolument! Je suis une personne r'' @ [233] @ cp ''elle de '' @ n @
             cp ''. Je suis ici pour trouver une solution avec vous. Comment je peux vous aider?'')))"

definition robot_keywords :: "ustr list" where
  "robot_keywords =
     [ [234] @ cp ''tes-vous un robot'',
       cp ''vous '' @ [234] @ cp ''tes un robot'',
       cp ''c'' @ [39] @ cp ''est un robot'',
       cp ''automated'',
       cp ''automatis'' @ [233],
       cp ''intelligence artificielle'',
       cp ''ia?'',
       cp ''chatbot'',
       cp ''bot?'',
       cp ''real person'',
       cp ''vraie personne'',
       cp ''human'',
       cp ''humain'' ]"

definition is_robot_question :: "globals \<Rightarrow> ustr \<Rightarrow> bool" where
  "is_robot_question g text =
     (let text_lower = str_lower g text
      in list_ex (\<lambda>keyword. str_in keyword text_lower) robot_keywords)"

definition is_closing_message :: "globals \<Rightarrow> ustr \<Rightarrow> bool" where
  "is_closing_message g text =
     (let text_lower = str_lower g text
      in list_ex (\<lambda>word. str_in word text_lower) (CLOSING_WORDS g))"

subsection \<open>\<^verbatim>\<open>generate_response\<close> and \<^verbatim>\<open>start\<close>\<close>

definition error_msg :: ustr where
  "error_msg =
     cp ''Une erreur s'' @ [39] @ cp ''est produite. Pouvez-vous r'' @ [233] @ cp ''p'' @ [233] @
     cp ''ter, s'' @ [39] @ cp ''il vous pla'' @ [238] @ cp ''t?''"

definition context_of :: "globals \<Rightarrow> ustr list \<Rightarrow> ustr" where
  "context_of g history = join [10] (slice_from (- MAX_HISTORY g) history)"

definition full_prompt_of :: "ustr \<Rightarrow> ustr \<Rightarrow> ustr" where
  "full_prompt_of sp context =
     sp @ [10, 10] @
     cp ''[HISTORIQUE DE CONVERSATION]'' @ [10] @
     context @ [10, 10] @
     cp ''[INSTRUCTION] R'' @ [233] @ cp ''pondez au client de mani'' @ [232] @
     cp ''re naturelle et professionnelle en fran'' @ [231] @ cp ''ais:''"

definition append_turn :: "agent \<Rightarrow> ustr \<Rightarrow> agent" where
  "append_turn self entry = self\<lparr>conversation_history := conversation_history self @ [entry]\<rparr>"

text \<open>
  The result of a call is the returned text (\<open>Inr\<close>) or the exception that escapes
  (\<open>Inl\<close>), each with the agent and the world as they are then.
\<close>

type_synonym 'b outcome = "(pyerr \<times> agent \<times> 'b world) + (ustr \<times> agent \<times> 'b world)"

text \<open>
  The \<^verbatim>\<open>except\<close> branch of \<^verbatim>\<open>generate_response\<close>, on an exception with message
  \<open>m\<close>: it appends the apology, prints the message and returns the apology.
\<close>

definition except_branch :: "'b world \<Rightarrow> agent \<Rightarrow> ustr \<Rightarrow> 'b outcome" where
  "except_branch w self m =
     (let self' = append_turn self (cp ''Agent: '' @ error_msg)
      in case py_print w ([10] @ cp ''[ERREUR]: '' @ m @ [10]) of
           Some e \<Rightarrow> Inl (e, self', w)
         | None \<Rightarrow> Inr (error_msg, self', w))"

text \<open>
  \<^verbatim>\<open>generate_response\<close>. The debug print of the robot branch is outside the
  \<^verbatim>\<open>try\<close>; the one after a generated text is inside it, so its exception would be
  handled by the \<^verbatim>\<open>except\<close> branch.
\<close>

definition generate_response :: "globals \<Rightarrow> 'b world \<Rightarrow> agent \<Rightarrow> ustr \<Rightarrow> 'b outcome" where
  "generate_response g w self user_message =
     (let self1 = append_turn self (cp ''Client: '' @ user_message)
      in if is_robot_question g user_message then
           (case get_robot_response self1 of
              Inl e \<Rightarrow> Inl (e, self1, w)
            | Inr robot_response \<Rightarrow>
                (let self2 = append_turn self1 (cp ''Agent: '' @ robot_response)
                 in case (if DEBUG g
                          then py_print w
                                 (cp ''[DEBUG] Robot question detected - using preset response'')
                          else None) of
                      Some e \<Rightarrow> Inl (e, self2, w)
                    | None \<Rightarrow> Inr (robot_response, self2, w)))
         else
           (let context = context_of g (conversation_history self1);
                full_prompt = full_prompt_of (system_prompt self1) context;
                (r, w') = call_backend w full_prompt
            in case r of
                 Inl m \<Rightarrow> except_branch w' self1 m
               | Inr agent_response \<Rightarrow>
                   (let self2 = append_turn self1 (cp ''Agent: '' @ agent_response)
                    in case (if DEBUG g
                             then py_print w'
                                    (cp ''[DEBUG] Generated response ('' @
                                     digits_of (length agent_response) @ cp '' chars)'')
                             else None) of
                         Some e \<Rightarrow> except_branch w' self2 (err_str e)
                       | None \<Rightarrow> Inr (agent_response, self2, w'))))"

definition start :: "agent \<Rightarrow> pyerr + (ustr \<times> agent)" where
  "start self =
     (case get_greeting self of
        Inl e \<Rightarrow> Inl e
      | Inr greeting \<Rightarrow> Inr (greeting, append_turn self (cp ''Agent: '' @ greeting)))"

section \<open>The test harness\<close>

record scenario =
  sc_name :: ustr
  sc_category :: ustr
  sc_conversation :: "ustr list"

text \<open>One entry of \<^verbatim>\<open>TestResult.conversation\<close>. Times are seconds, as real numbers.\<close>

record exchange =
  user :: ustr
  agent :: ustr
  response_time :: real

record TestResult =
  scenario_name :: ustr
  test_client_key :: ustr
  iteration :: int
  success :: bool
  error_message :: "ustr option"
  response_times :: "real list"
  total_time :: real
  turns :: nat
  properly_closed :: bool
  conversation :: "exchange list"
  failure_reason :: "ustr option"

definition new_TestResult :: "ustr \<Rightarrow> ustr \<Rightarrow> int \<Rightarrow> TestResult" where
  "new_TestResult name key i =
     \<lparr> scenario_name = name, test_client_key = key, iteration = i, success = False,
       error_message = None, response_times = [], total_time = 0, turns = 0,
       properly_closed = False, conversation = [], failure_reason = None \<rparr>"

definition add_exchange :: "TestResult \<Rightarrow> ustr \<Rightarrow> ustr \<Rightarrow> real \<Rightarrow> TestResult" where
  "add_exchange r user_msg agent_response t =
     r\<lparr> response_times := response_times r @ [t],
        turns := turns r + 1,
        conversation := conversation r @
          [\<lparr> user = user_msg, agent = agent_response, response_time = t \<rparr>] \<rparr>"

definition set_error :: "TestResult \<Rightarrow> ustr \<Rightarrow> TestResult" where
  "set_error r m =
     r\<lparr> success := False, error_message := Some m,
        failure_reason := Some (cp ''API Error: '' @ m) \<rparr>"

definition set_failure_reason :: "TestResult \<Rightarrow> ustr \<Rightarrow> TestResult" where
  "set_failure_reason r reason = r\<lparr> failure_reason := Some reason, success := False \<rparr>"

definition finalize :: "TestResult \<Rightarrow> bool \<Rightarrow> TestResult" where
  "finalize r pc =
     r\<lparr> properly_closed := pc,
        total_time := (if response_times r \<noteq> [] then sum_list (response_times r) else 0),
        success := (error_message r = None) \<rparr>"

text \<open>
  The three lines that \<^verbatim>\<open>run_single_test\<close> prints after a turn when
  \<^verbatim>\<open>verbose\<close> is set (8594 is the arrow), and a sequence of prints: the first
  exception ends it.
\<close>

definition verbose_lines :: "ustr \<Rightarrow> ustr \<Rightarrow> real \<Rightarrow> ustr list" where
  "verbose_lines user_msg agent_response rt =
     [ cp ''  '' @ [8594] @ cp '' User: '' @ user_msg,
       cp ''  '' @ [8594] @ cp '' Agent: '' @ take 100 agent_response @ cp ''...'',
       cp ''    Response time: '' @ format_2f rt @ cp ''s'' @ [10] ]"

fun print_all :: "'b world \<Rightarrow> ustr list \<Rightarrow> pyerr option" where
  "print_all w [] = None"
| "print_all w (t # ts) = (case py_print w t of Some e \<Rightarrow> Some e | None \<Rightarrow> print_all w ts)"

text \<open>
  The loop of \<^verbatim>\<open>run_single_test\<close> over the scripted utterances. An exception leaves
  the loop with the result and the world as they are at that point.
\<close>

fun run_conversation ::
  "globals \<Rightarrow> bool \<Rightarrow> 'b world \<Rightarrow> agent \<Rightarrow> TestResult \<Rightarrow> ustr list \<Rightarrow>
     (pyerr \<times> TestResult \<times> 'b world) + (TestResult \<times> agent \<times> 'b world)" where
  "run_conversation g verbose w a r [] = Inr (r, a, w)"
| "run_conversation g verbose w a r (user_msg # rest) =
     (let (start_time, w1) = time_time w
      in case generate_response g w1 a user_msg of
           Inl (e, a', w2) \<Rightarrow> Inl (e, r, w2)
         | Inr (agent_response, a', w2) \<Rightarrow>
             (let (t, w3) = time_time w2;
                  rt = t - start_time;
                  r' = add_exchange r user_msg agent_response rt
              in case (if verbose then print_all w3 (verbose_lines user_msg agent_response rt)
                       else None) of
                   Some e \<Rightarrow> Inl (e, r', w3)
                 | None \<Rightarrow> run_conversation g verbose w3 a' r' rest))"

definition closing_indicators :: "ustr list" where
  "closing_indicators =
     [ cp ''au revoir'', [224] @ cp '' bient'' @ [244] @ cp ''t'', cp ''fin'', cp ''quitter'',
       cp ''merci'' ]"

definition closes :: "globals \<Rightarrow> ustr \<Rightarrow> bool" where
  "closes g agent_msg =
     (let last_agent_msg = str_lower g agent_msg
      in list_ex (\<lambda>indicator. str_in indicator last_agent_msg) closing_indicators)"

text \<open>
  The body of the \<^verbatim>\<open>try\<close> of \<^verbatim>\<open>run_single_test\<close>: the result it ends with, or
  the exception that leaves it, with the result as it is then.
\<close>

definition run_single_test_try ::
  "globals \<Rightarrow> 'b world \<Rightarrow> scenario \<Rightarrow> ustr \<Rightarrow> int \<Rightarrow> bool \<Rightarrow>
     (pyerr \<times> TestResult \<times> 'b world) + (TestResult \<times> 'b world)" where
  "run_single_test_try g w sc key i verbose =
     (let result = new_TestResult (sc_name sc) key i
      in case FrenchDebtCollectionAgent g w (Some key) of
           Inl e \<Rightarrow> Inl (e, result, w)
         | Inr a0 \<Rightarrow>
             (case start a0 of
                Inl e \<Rightarrow> Inl (e, result, w)
              | Inr (greeting, a1) \<Rightarrow>
                  (let r1 = result\<lparr>conversation := conversation result @
                              [\<lparr> user = cp ''[greeting]'', agent = greeting,
                                 response_time = 0 \<rparr>]\<rparr>
                   in case run_conversation g verbose w a1 r1 (sc_conversation sc) of
                        Inl (e, r, w') \<Rightarrow> Inl (e, r, w')
                      | Inr (r2, a2, w2) \<Rightarrow>
                          (case conversation r2 of
                             [] \<Rightarrow> Inl (IndexError, r2, w2)
                           | _ # _ \<Rightarrow>
                               (let r3 = r2\<lparr>properly_closed :=
                                            closes g (agent (last (conversation r2)))\<rparr>
                                in Inr (finalize r3 (properly_closed r3), w2))))))"

text \<open>
  \<^verbatim>\<open>run_single_test\<close>: every exception that leaves the \<^verbatim>\<open>try\<close> ends in
  \<^verbatim>\<open>set_error(str(e))\<close> on the result as it is then.
\<close>

definition run_single_test ::
  "globals \<Rightarrow> 'b world \<Rightarrow> scenario \<Rightarrow> ustr \<Rightarrow> int \<Rightarrow> bool \<Rightarrow> TestResult \<times> 'b world" where
  "run_single_test g w sc key i verbose =
     (case run_single_test_try g w sc key i verbose of
        Inl (e, r, w') \<Rightarrow> (set_error r (err_str e), w')
      | Inr (r, w') \<Rightarrow> (r, w'))"

subsection \<open>Aggregation\<close>

text \<open>
  The entries of the dictionary of \<^verbatim>\<open>analyze_results\<close> that are numbers; the
  per-scenario and per-client breakdowns are not modelled. \<^verbatim>\<open>analyze_results\<close>
  returns the empty dictionary for no results: \<open>None\<close>. The arithmetic is that of the
  real numbers. The index \<^verbatim>\<open>int(len(xs) * 0.95)\<close> is \<open>19 * len(xs) div 20\<close>.
  \<^verbatim>\<open>statistics.mean\<close>, the indexing and \<^verbatim>\<open>max\<close> are only reached on a non-empty
  list, as in the source.
\<close>

record report =
  total_tests :: nat
  passed_tests :: nat
  success_rate :: real
  avg_response_time :: real
  p95_response_time :: real
  max_response_time :: real
  hand_off_rate :: real

definition mean :: "real list \<Rightarrow> real" where
  "mean xs = sum_list xs / real (length xs)"

definition p95 :: "real list \<Rightarrow> real" where
  "p95 xs = sort xs ! (19 * length xs div 20)"

definition max_list :: "real list \<Rightarrow> real" where
  "max_list xs = fold max (tl xs) (hd xs)"

definition analyze_results :: "TestResult list \<Rightarrow> report option" where
  "analyze_results results =
     (if results = [] then None
      else
        (let total = length results;
             passed = length (filter success results);
             all_response_times = concat (map response_times results);
             n_closed = length (filter properly_closed results)
         in Some
           \<lparr> total_tests = total,
             passed_tests = passed,
             success_rate = (if total > 0 then real passed / real total * 100 else 0),
             avg_response_time =
               (if all_response_times \<noteq> [] then mean all_response_times else 0),
             p95_response_time =
               (if all_response_times \<noteq> [] then p95 all_response_times else 0),
             max_response_time =
               (if all_response_times \<noteq> [] then max_list all_response_times else 0),
             hand_off_rate = (if total > 0 then real n_closed / real total * 100 else 0) \<rparr>))"

section \<open>Notions used to state the properties\<close>


text \<open>The text an outcome of the backend call turns into: the apology when it raised.\<close>

definition reply_of :: "ustr + ustr \<Rightarrow> ustr" where
  "reply_of out = (case out of Inl e \<Rightarrow> error_msg | Inr t \<Rightarrow> t)"

text \<open>
  Containment with the letter case ignored, on texts within U+0000..U+00FF: some
  stretch of the text has, position by position, the letters of the phrase, capital or
  small.
\<close>

fun ci_prefix :: "ustr \<Rightarrow> ustr \<Rightarrow> bool" where
  "ci_prefix [] t = True"
| "ci_prefix (k # ks) [] = False"
| "ci_prefix (k # ks) (c # cs) = (lower_latin1 c = lower_latin1 k \<and> ci_prefix ks cs)"

fun ci_in :: "ustr \<Rightarrow> ustr \<Rightarrow> bool" where
  "ci_in k [] = (k = [])"
| "ci_in k (c # cs) = (ci_prefix k (c # cs) \<or> ci_in k cs)"

text \<open>
  The specification's hand-off indicator, in its words: the final agent utterance of
  the result contains one of the closing-acknowledgement phrases, letter case ignored
  (for an utterance with a code point above U+00FF, the case folding is the one of the
  runtime). A result without any utterance has none.
\<close>

definition final_utterance_closes :: "globals \<Rightarrow> TestResult \<Rightarrow> bool" where
  "final_utterance_closes g r =
     (case conversation r of
        [] \<Rightarrow> False
      | _ # _ \<Rightarrow>
          (let t = agent (last (conversation r))
           in if list_all (\<lambda>c. c < 256) t
              then list_ex (\<lambda>phrase. ci_in phrase t) closing_indicators
              else list_ex (\<lambda>phrase. str_in phrase (unicode_lower g t)) closing_indicators))"

text \<open>
  A harness run, with its own globals and world; its result; whether it ran to its end,
  no exception leaving the \<^verbatim>\<open>try\<close>; and whether its final utterance closes.
\<close>

type_synonym 'b run = "globals \<times> 'b world \<times> scenario \<times> ustr \<times> int \<times> bool"

definition result_of :: "'b run \<Rightarrow> TestResult" where
  "result_of x =
     (case x of (g, w, sc, key, i, verbose) \<Rightarrow> fst (run_single_test g w sc key i verbose))"

definition run_completed :: "'b run \<Rightarrow> bool" where
  "run_completed x =
     (case x of (g, w, sc, key, i, verbose) \<Rightarrow> \<not> isl (run_single_test_try g w sc key i verbose))"

definition run_closes :: "'b run \<Rightarrow> bool" where
  "run_closes x =
     (case x of (g, w, sc, key, i, verbose) \<Rightarrow> final_utterance_closes g (result_of x))"

subsection \<open>A small configuration for the concrete instances\<close>

definition dell_profile :: profile where
  "dell_profile =
     [''client_name'' \<mapsto> cp ''Dell'', ''tone'' \<mapsto> cp ''formal'',
      ''closing_line'' \<mapsto> cp ''Merci et au revoir.'']"

text \<open>A profile without its closing line.\<close>

definition acme_profile :: profile where
  "acme_profile = [''client_name'' \<mapsto> cp ''Acme'', ''tone'' \<mapsto> cp ''formal'']"

definition demo_doc :: "int \<Rightarrow> config_doc" where
  "demo_doc n =
     \<lparr> doc_model = None, doc_max_history = Some n, doc_closing_words = None,
       doc_clients = Some [(cp ''dell'', dell_profile), (cp ''acme'', acme_profile)] \<rparr>"

definition demo_fs :: "ustr \<rightharpoonup> ustr + config_doc" where
  "demo_fs = [cp ''./config.yaml'' \<mapsto> Inr (demo_doc 10)]"

definition demo_globals :: "int \<Rightarrow> globals" where
  "demo_globals n = module_globals (demo_doc n) None False id"

text \<open>
  A backend that is down, one that always answers with a farewell in capitals, one that
  always answers with a farewell, and one that raises with a message holding the lone
  surrogate U+D800.
\<close>

definition outage :: "unit \<Rightarrow> ustr \<Rightarrow> (ustr + ustr) \<times> unit" where
  "outage s prompt = (Inl (cp ''503 Service Unavailable''), s)"

definition farewell :: "unit \<Rightarrow> ustr \<Rightarrow> (ustr + ustr) \<times> unit" where
  "farewell s prompt = (Inr (cp ''Merci et au revoir.''), s)"

definition loud_farewell :: "unit \<Rightarrow> ustr \<Rightarrow> (ustr + ustr) \<times> unit" where
  "loud_farewell s prompt = (Inr (cp ''MERCI, AU REVOIR.''), s)"

definition garbled :: "unit \<Rightarrow> ustr \<Rightarrow> (ustr + ustr) \<times> unit" where
  "garbled s prompt = (Inl [55296], s)"

text \<open>
  Three standard outputs: a strict UTF-8 stream, which writes every code point but the
  surrogates; a Latin-1 console; and a stream that writes everything (an error handler
  that escapes what it cannot encode).
\<close>

definition utf8_strict :: "nat \<Rightarrow> bool" where
  "utf8_strict c = (\<not> (55296 \<le> c \<and> c \<le> 57343))"

definition latin1_only :: "nat \<Rightarrow> bool" where
  "latin1_only c = (c < 256)"


definition cannot_encode :: "ustr \<Rightarrow> ustr" where
  "cannot_encode t = cp ''codec cannot encode character''"

definition demo_world :: "(unit \<Rightarrow> ustr \<Rightarrow> (ustr + ustr) \<times> unit) \<Rightarrow> unit world" where
  "demo_world f =
     \<lparr> generate_content = f, backend_state = (), calls = [], clock = real, ticks = 0,
       stdout_accepts = utf8_strict, codec_message = cannot_encode \<rparr>"

definition console_world :: "(unit \<Rightarrow> ustr \<Rightarrow> (ustr + ustr) \<times> unit) \<Rightarrow> unit world" where
  "console_world f = (demo_world f)\<lparr>stdout_accepts := latin1_only\<rparr>"


definition demo_agent :: agent where
  "demo_agent =
     \<lparr> client_key = cp ''dell'', client_config = dell_profile,
       system_prompt = cp ''ROLE'',
       conversation_history =
         [cp ''Agent: Bonjour.'', cp ''Client: Bonjour.'', cp ''Agent: Oui?''] \<rparr>"

definition demo_scenario :: scenario where
  "demo_scenario =
     \<lparr> sc_name = cp ''Client Agrees to Pay'', sc_category = cp ''Positive'',
       sc_conversation = [cp ''Au revoir.''] \<rparr>"

text \<open>A result with twenty turns of one second and one of twenty-two.\<close>

definition slow_tail :: TestResult where
  "slow_tail =
     (new_TestResult (cp ''Upset/Angry Client'') (cp ''dell'') 1)
       \<lparr> success := True,
         response_times := [1, 1, 1, 1, 1, 1, 1, 1, 1, 1, 1, 1, 1, 1, 1, 1, 1, 1, 1, 1, 22],
         turns := 21 \<rparr>"

text \<open>A result with two turns, of one and of three seconds.\<close>

definition two_turns :: TestResult where
  "two_turns =
     (new_TestResult (cp ''Client Agrees to Pay'') (cp ''dell'') 1)
       \<lparr> success := True, response_times := [1, 3], turns := 2 \<rparr>"

text \<open>
  The run of the one-utterance scenario for the client \<^verbatim>\<open>dell\<close> in a world, silent
  or verbose.
\<close>

definition demo_run :: "unit world \<Rightarrow> bool \<Rightarrow> unit run" where
  "demo_run w verbose = (demo_globals 10, w, demo_scenario, cp ''dell'', 1, verbose)"

section \<open>Properties of the text primitives\<close>

lemma str_in_sublist: "str_in k s = sublist k s"
  by (induction s) (auto simp: sublist_Cons_right)

lemma str_in_iff: "str_in k s \<longleftrightarrow> (\<exists>p q. s = p @ k @ q)"
  by (simp add: str_in_sublist sublist_def)

section \<open>Properties of the prompt assembler\<close>

lemma build_system_prompt_present:
  assumes "cfg ''client_name'' = Some n" and "cfg ''closing_line'' = Some c"
  shows "build_system_prompt cfg =
           Inr (prompt_part1 @ n @
                prompt_part2 @ dict_get cfg ''tone'' (cp ''professional'') @
                prompt_part3 @ dict_get cfg ''formality_level'' (cp ''medium'') @
                prompt_part4 @ dict_get cfg ''phrasing'' (cp ''direct'') @
                prompt_part5 @ c @ prompt_part6 @ c @ prompt_part7)"
  using assms by (simp add: build_system_prompt_def)

lemma build_system_prompt_Inr_iff:
  "(\<exists>sp. build_system_prompt cfg = Inr sp) \<longleftrightarrow>
     cfg ''client_name'' \<noteq> None \<and> cfg ''closing_line'' \<noteq> None"
  by (auto simp: build_system_prompt_def split: option.splits)

lemma build_system_prompt_fails_KeyError:
  assumes "cfg ''client_name'' = None \<or> cfg ''closing_line'' = None"
  shows "\<exists>k. build_system_prompt cfg = Inl (KeyError k)"
  using assms by (auto simp: build_system_prompt_def split: option.splits)

text \<open>
  C4. For every profile in which both \<^verbatim>\<open>client_name\<close> and \<^verbatim>\<open>closing_line\<close> are
  present, \<^verbatim>\<open>build_system_prompt\<close> returns a text that contains the client name and
  the closing line verbatim, and it is deterministic: the text is a function of the
  profile, indeed of its five fields \<^verbatim>\<open>client_name\<close>, \<^verbatim>\<open>tone\<close>,
  \<^verbatim>\<open>formality_level\<close>, \<^verbatim>\<open>phrasing\<close> and \<^verbatim>\<open>closing_line\<close> alone, so equal
  profiles yield equal output.
\<close>

theorem build_system_prompt_contains:
  assumes "cfg ''client_name'' = Some n" and "cfg ''closing_line'' = Some c"
  shows "(\<exists>out. build_system_prompt cfg = Inr out \<and>
            (\<exists>p q. out = p @ n @ q) \<and> (\<exists>p q. out = p @ c @ q) \<and>
            str_in n out \<and> str_in c out) \<and>
         (\<forall>cfg'. cfg' ''client_name'' = cfg ''client_name'' \<and>
                cfg' ''tone'' = cfg ''tone'' \<and>
                cfg' ''formality_level'' = cfg ''formality_level'' \<and>
                cfg' ''phrasing'' = cfg ''phrasing'' \<and>
                cfg' ''closing_line'' = cfg ''closing_line''
                \<longrightarrow> build_system_prompt cfg' = build_system_prompt cfg)"
proof (intro conjI allI impI)
  let ?out = "prompt_part1 @ n @
                prompt_part2 @ dict_get cfg ''tone'' (cp ''professional'') @
                prompt_part3 @ dict_get cfg ''formality_level'' (cp ''medium'') @
                prompt_part4 @ dict_get cfg ''phrasing'' (cp ''direct'') @
                prompt_part5 @ c @ prompt_part6 @ c @ prompt_part7"
  have out: "build_system_prompt cfg = Inr ?out"
    by (rule build_system_prompt_present [OF assms])
  have n: "\<exists>p q. ?out = p @ n @ q" by blast
  have "?out = (prompt_part1 @ n @
                prompt_part2 @ dict_get cfg ''tone'' (cp ''professional'') @
                prompt_part3 @ dict_get cfg ''formality_level'' (cp ''medium'') @
                prompt_part4 @ dict_get cfg ''phrasing'' (cp ''direct'') @
                prompt_part5) @ c @ (prompt_part6 @ c @ prompt_part7)" by simp
  then have c: "\<exists>p q. ?out = p @ c @ q" by blast
  from out n c show "\<exists>out. build_system_prompt cfg = Inr out \<and>
            (\<exists>p q. out = p @ n @ q) \<and> (\<exists>p q. out = p @ c @ q) \<and>
            str_in n out \<and> str_in c out"
    unfolding str_in_iff by blast
next
  fix cfg'
  assume "cfg' ''client_name'' = cfg ''client_name'' \<and>
                cfg' ''tone'' = cfg ''tone'' \<and>
                cfg' ''formality_level'' = cfg ''formality_level'' \<and>
                cfg' ''phrasing'' = cfg ''phrasing'' \<and>
                cfg' ''closing_line'' = cfg ''closing_line''"
  then show "build_system_prompt cfg' = build_system_prompt cfg"
    by (simp add: build_system_prompt_def dict_get_def split: option.splits)
qed

theorem build_system_prompt_contains_witness:
  "(\<exists>out. build_system_prompt dell_profile = Inr out \<and>
      str_in (cp ''Dell'') out \<and> str_in (cp ''Merci et au revoir.'') out) \<and>
   build_system_prompt (dell_profile(''payment_label'' \<mapsto> cp ''facture'')) =
     build_system_prompt dell_profile"
proof -
  have n: "dell_profile ''client_name'' = Some (cp ''Dell'')"
    and c: "dell_profile ''closing_line'' = Some (cp ''Merci et au revoir.'')"
    by (simp_all add: dell_profile_def)
  have same: "(dell_profile(''payment_label'' \<mapsto> cp ''facture'')) ''client_name'' =
        dell_profile ''client_name'' \<and>
      (dell_profile(''payment_label'' \<mapsto> cp ''facture'')) ''tone'' = dell_profile ''tone'' \<and>
      (dell_profile(''payment_label'' \<mapsto> cp ''facture'')) ''formality_level'' =
        dell_profile ''formality_level'' \<and>
      (dell_profile(''payment_label'' \<mapsto> cp ''facture'')) ''phrasing'' =
        dell_profile ''phrasing'' \<and>
      (dell_profile(''payment_label'' \<mapsto> cp ''facture'')) ''closing_line'' =
        dell_profile ''closing_line''"
    by simp
  from build_system_prompt_contains [OF n c] same show ?thesis by blast
qed

text \<open>
  C9. For every profile from which \<^verbatim>\<open>client_name\<close> or \<^verbatim>\<open>closing_line\<close> is absent,
  \<^verbatim>\<open>build_system_prompt\<close> fails with an error (the \<^verbatim>\<open>KeyError\<close> of the missing
  field) and produces no text.
\<close>

theorem build_system_prompt_absent_fails:
  assumes "cfg ''client_name'' = None \<or> cfg ''closing_line'' = None"
  shows "\<exists>k. build_system_prompt cfg = Inl (KeyError k)"
  using assms by (auto simp: build_system_prompt_def split: option.splits)

theorem build_system_prompt_absent_fails_witness:
  "(\<exists>k. build_system_prompt acme_profile = Inl (KeyError k)) \<and>
   (\<exists>k. build_system_prompt [''closing_line'' \<mapsto> cp ''Merci.''] = Inl (KeyError k))"
proof -
  have a: "acme_profile ''client_name'' = None \<or> acme_profile ''closing_line'' = None"
    by (simp add: acme_profile_def)
  have b: "[''closing_line'' \<mapsto> cp ''Merci.''] ''client_name'' = None \<or>
           [''closing_line'' \<mapsto> cp ''Merci.''] ''closing_line'' = None" by simp
  from build_system_prompt_absent_fails [OF a] build_system_prompt_absent_fails [OF b]
  show ?thesis by blast
qed

section \<open>Properties of the agent\<close>

subsection \<open>The history window\<close>

lemma slice_from_zero: "slice_from 0 xs = xs"
  by (simp add: slice_from_def)

lemma slice_from_neg:
  assumes "0 < n"
  shows "slice_from (- n) xs = drop (length xs - nat n) xs"
proof -
  have "nat (max (int (length xs) - n) 0) = length xs - nat n"
    using assms by (simp add: max_def nat_diff_distrib')
  with assms show ?thesis by (simp add: slice_from_def Let_def)
qed

lemma slice_from_pos:
  assumes "0 \<le> i"
  shows "slice_from i xs = drop (nat i) xs"
  using assms by (auto simp: slice_from_def Let_def min_def)

lemma context_of_window:
  assumes "0 < MAX_HISTORY g"
  shows "context_of g h = join [10] (drop (length h - nat (MAX_HISTORY g)) h)"
    and "length (drop (length h - nat (MAX_HISTORY g)) h) \<le> nat (MAX_HISTORY g)"
  using assms by (simp_all add: context_of_def slice_from_neg)

lemma context_of_zero:
  assumes "MAX_HISTORY g = 0"
  shows "context_of g h = join [10] h"
  using assms by (simp add: context_of_def slice_from_zero)

subsection \<open>Printing\<close>

lemma digits_of_ascii: "list_all (\<lambda>c. c < 128) (digits_of n)"
proof (induction n rule: digits_of.induct)
  case (1 n)
  show ?case
  proof (cases "n < 10")
    case True
    then show ?thesis by (subst digits_of.simps) simp
  next
    case False
    have "n mod 10 < 10" by simp
    then have "48 + n mod 10 < 128" by linarith
    with 1 False show ?thesis by (subst digits_of.simps) simp
  qed
qed

lemma py_print_ascii:
  assumes "list_all (\<lambda>c. c < 128) t"
  shows "py_print w t = None"
proof -
  from assms have "writable w t"
    by (auto simp: writable_def list_all_iff)
  then show ?thesis by (simp add: py_print_def)
qed

lemma py_print_writable: "writable w t \<Longrightarrow> py_print w t = None"
  by (simp add: py_print_def)

lemma py_print_unwritable:
  "\<not> writable w t \<Longrightarrow> py_print w t = Some (UnicodeEncodeError (codec_message w t))"
  by (simp add: py_print_def)

lemma debug_robot_print:
  "py_print w (cp ''[DEBUG] Robot question detected - using preset response'') = None"
  by (rule py_print_ascii) (simp add: cp_def)

lemma debug_generated_print:
  "py_print w (cp ''[DEBUG] Generated response ('' @ digits_of n @ cp '' chars)'') = None"
  by (rule py_print_ascii) (simp add: cp_def digits_of_ascii)

lemma writable_world_update [simp]:
  "writable (w\<lparr>backend_state := s, calls := c\<rparr>) t = writable w t"
  "writable (w\<lparr>ticks := k\<rparr>) t = writable w t"
  by (simp_all add: writable_def)

subsection \<open>One turn\<close>

lemma get_robot_response_append_turn [simp]:
  "get_robot_response (append_turn a e) = get_robot_response a"
  by (simp add: get_robot_response_def append_turn_def split: option.splits)


lemma get_greeting_ok:
  "client_config a ''client_name'' = Some n \<Longrightarrow> \<exists>r. get_greeting a = Inr r"
  by (simp add: get_greeting_def)

lemma append_turn_twice:
  "append_turn (append_turn a x) y = a\<lparr>conversation_history := conversation_history a @ [x, y]\<rparr>"
  by (simp add: append_turn_def)

lemma generate_response_robot:
  assumes "is_robot_question g msg" and "get_robot_response a = Inr r"
  shows "generate_response g w a msg =
           Inr (r, a\<lparr>conversation_history :=
                       conversation_history a @ [cp ''Client: '' @ msg, cp ''Agent: '' @ r]\<rparr>, w)"
  using assms
  by (simp add: generate_response_def Let_def append_turn_twice debug_robot_print)

lemma generate_response_generated:
  assumes "\<not> is_robot_question g msg"
    and "generate_content w (backend_state w) (full_prompt_of (system_prompt a)
           (context_of g (conversation_history a @ [cp ''Client: '' @ msg]))) = (Inr t, s)"
  shows "generate_response g w a msg =
           Inr (t,
                a\<lparr>conversation_history :=
                    conversation_history a @ [cp ''Client: '' @ msg, cp ''Agent: '' @ t]\<rparr>,
                w\<lparr>backend_state := s,
                  calls := calls w @ [(full_prompt_of (system_prompt a)
                    (context_of g (conversation_history a @ [cp ''Client: '' @ msg])), Inr t)]\<rparr>)"
  using assms
  by (simp add: generate_response_def Let_def append_turn_def call_backend_def
      debug_generated_print)

lemma generate_response_raised:
  assumes "\<not> is_robot_question g msg"
    and "generate_content w (backend_state w) (full_prompt_of (system_prompt a)
           (context_of g (conversation_history a @ [cp ''Client: '' @ msg]))) = (Inl m, s)"
  shows "generate_response g w a msg =
           (if writable w ([10] @ cp ''[ERREUR]: '' @ m @ [10])
            then Inr (error_msg,
                a\<lparr>conversation_history :=
                    conversation_history a @ [cp ''Client: '' @ msg, cp ''Agent: '' @ error_msg]\<rparr>,
                w\<lparr>backend_state := s,
                  calls := calls w @ [(full_prompt_of (system_prompt a)
                    (context_of g (conversation_history a @ [cp ''Client: '' @ msg])), Inl m)]\<rparr>)
            else Inl (UnicodeEncodeError
                        (codec_message w ([10] @ cp ''[ERREUR]: '' @ m @ [10])),
                a\<lparr>conversation_history :=
                    conversation_history a @ [cp ''Client: '' @ msg, cp ''Agent: '' @ error_msg]\<rparr>,
                w\<lparr>backend_state := s,
                  calls := calls w @ [(full_prompt_of (system_prompt a)
                    (context_of g (conversation_history a @ [cp ''Client: '' @ msg])), Inl m)]\<rparr>))"
  using assms
  by (simp add: generate_response_def Let_def append_turn_def call_backend_def
      except_branch_def py_print_def)


text \<open>
  Every agent the constructor returns has a client name in its profile, and no operation
  changes the profile.
\<close>

lemma FrenchDebtCollectionAgent_fields:
  assumes "FrenchDebtCollectionAgent g w k = Inr a"
  shows "\<exists>n c. client_config a ''client_name'' = Some n \<and> client_config a ''closing_line'' = Some c"
    and "conversation_history a = []"
    and "build_system_prompt (client_config a) = Inr (system_prompt a)"
  using assms
  by (auto simp: FrenchDebtCollectionAgent_def build_system_prompt_def Let_def
      split: sum.splits option.splits if_splits)

lemma not_robot_ok: "\<not> is_robot_question (demo_globals n) (cp ''ok'')"
  by (simp add: is_robot_question_def str_lower_def cp_def lower_latin1_def robot_keywords_def)

lemma robot_example: "is_robot_question g (cp ''Are you a robot?'')"
  by (simp add: is_robot_question_def str_lower_def cp_def lower_latin1_def robot_keywords_def)

lemma not_robot_example: "\<not> is_robot_question g (cp ''I can pay tomorrow.'')"
  by (simp add: is_robot_question_def str_lower_def cp_def lower_latin1_def robot_keywords_def)

lemma start_appends:
  assumes "client_config a ''client_name'' = Some n"
  shows "\<exists>r. start a = Inr (r, a\<lparr>conversation_history := conversation_history a @ [cp ''Agent: '' @ r]\<rparr>)"
  using get_greeting_ok [OF assms] by (auto simp: start_def append_turn_def)

subsection \<open>A backend error whose message cannot be printed\<close>

lemma garbled_not_writable:
  "\<not> writable ((demo_world garbled)\<lparr>backend_state := s, calls := c\<rparr>)
       ([10] @ cp ''[ERREUR]: '' @ [55296] @ [10])"
  by (simp add: writable_def demo_world_def utf8_strict_def cp_def)

lemma garbled_turn:
  "generate_response (demo_globals 10) (demo_world garbled) demo_agent (cp ''ok'') =
     Inl (UnicodeEncodeError (cp ''codec cannot encode character''),
          demo_agent\<lparr>conversation_history := conversation_history demo_agent @
             [cp ''Client: '' @ cp ''ok'', cp ''Agent: '' @ error_msg]\<rparr>,
          (demo_world garbled)\<lparr>backend_state := (),
             calls := [(full_prompt_of (system_prompt demo_agent)
                          (context_of (demo_globals 10)
                             (conversation_history demo_agent @ [cp ''Client: '' @ cp ''ok''])),
                        Inl [55296])]\<rparr>)"
proof -
  have g: "generate_content (demo_world garbled) (backend_state (demo_world garbled))
      (full_prompt_of (system_prompt demo_agent)
        (context_of (demo_globals 10)
          (conversation_history demo_agent @ [cp ''Client: '' @ cp ''ok'']))) =
      (Inl [55296], ())"
    by (simp add: demo_world_def garbled_def)
  have nw: "\<not> writable (demo_world garbled) ([10] @ cp ''[ERREUR]: '' @ [55296] @ [10])"
    by (simp add: writable_def demo_world_def utf8_strict_def cp_def)
  have k: "calls (demo_world garbled) = []"
    and m: "codec_message (demo_world garbled) = cannot_encode"
    by (simp_all add: demo_world_def)
  from generate_response_raised [OF not_robot_ok g] nw
  show ?thesis by (simp add: k m cannot_encode_def)
qed

text \<open>
  C1. \<^verbatim>\<open>generate_response\<close> should never raise and should return the apology when
  the backend call raises. When the message of the backend's exception cannot be written
  to the standard output, as the lone surrogate U+D800 on a strict UTF-8 stream, the
  \<^verbatim>\<open>except\<close> branch appends the apology and then its \<^verbatim>\<open>print\<close> raises
  \<^verbatim>\<open>UnicodeEncodeError\<close>, which leaves \<^verbatim>\<open>generate_response\<close>. (Whenever that
  message can be written, the call returns, see \<open>generate_response_returns\<close>, and a
  raising backend call gives the apology, see \<open>generate_response_raised\<close>.)
\<close>

theorem apology_print_raises:
  "generate_response (demo_globals 10) (demo_world garbled) demo_agent (cp ''ok'') =
     Inl (UnicodeEncodeError (cp ''codec cannot encode character''),
          demo_agent\<lparr>conversation_history := conversation_history demo_agent @
             [cp ''Client: '' @ cp ''ok'', cp ''Agent: '' @ error_msg]\<rparr>,
          (demo_world garbled)\<lparr>backend_state := (),
             calls := [(full_prompt_of (system_prompt demo_agent)
                          (context_of (demo_globals 10)
                             (conversation_history demo_agent @ [cp ''Client: '' @ cp ''ok''])),
                        Inl [55296])]\<rparr>) \<and>
   fst (generate_content (demo_world garbled) ()
          (full_prompt_of (system_prompt demo_agent)
             (context_of (demo_globals 10)
                (conversation_history demo_agent @ [cp ''Client: '' @ cp ''ok''])))) =
     Inl [55296]"
  using garbled_turn by (simp add: demo_world_def garbled_def)

text \<open>
  C10. A call of \<^verbatim>\<open>generate_response\<close> should append the user turn and an agent
  turn and return the text of that agent turn, in every branch. On the same input the
  apology branch appends its two entries and then raises from its \<^verbatim>\<open>print\<close>: no
  text is returned. (In the other two branches, and in this one whenever the message
  can be written, the two entries are appended and the agent turn's text is returned,
  see \<open>generate_response_returns\<close>.)
\<close>

theorem apology_branch_does_not_return:
  "isl (generate_response (demo_globals 10) (demo_world garbled) demo_agent (cp ''ok'')) \<and>
   conversation_history
     (fst (snd (projl
        (generate_response (demo_globals 10) (demo_world garbled) demo_agent (cp ''ok''))))) =
     conversation_history demo_agent @ [cp ''Client: '' @ cp ''ok'', cp ''Agent: '' @ error_msg]"
  by (simp add: garbled_turn)

subsection \<open>The identity challenge\<close>

text \<open>
  C5. \<^verbatim>\<open>is_robot_question\<close> is a substring test of the lower-cased utterance against
  the fixed phrase list, so two utterances that differ in letter case only have the same
  answer; it is true of "Are you a robot?" and false of "I can pay tomorrow.". When it is
  true, \<^verbatim>\<open>generate_response\<close> appends and returns the preset denial of the profile's
  tone with the client name in it (the professional one for a tone that is absent or
  unknown), and the world is the one it was given: no backend call is made.
\<close>

theorem is_robot_question_short_circuit:
  "is_robot_question g (cp ''Are you a robot?'') \<and>
   \<not> is_robot_question g (cp ''I can pay tomorrow.'') \<and>
   (is_robot_question g t \<longleftrightarrow>
      (\<exists>k \<in> set robot_keywords. \<exists>p q. str_lower g t = p @ k @ q)) \<and>
   (str_lower g t = str_lower g t' \<longrightarrow>
      is_robot_question g t = is_robot_question g t') \<and>
   (is_robot_question g msg \<and> client_config a ''client_name'' = Some n \<longrightarrow>
      (let tone = (case client_config a ''tone'' of None \<Rightarrow> cp ''professional'' | Some x \<Rightarrow> x);
           denial =
             (if tone = cp ''formal'' then
                cp ''Non, je suis un conseiller professionnel de '' @ n @
                cp ''. Je suis ici pour vous aider avec votre compte. '' @
                cp ''Comment puis-je vous assister?''
              else if tone = cp ''collaborative'' then
                cp ''Non, absolument! Je suis une personne r'' @ [233] @ cp ''elle de '' @ n @
                cp ''. Je suis ici pour trouver une solution avec vous. '' @
                cp ''Comment je peux vous aider?''
              else
                cp ''Non, je suis un vrai conseiller de '' @ n @ cp ''. Je suis l'' @ [224] @
                cp '' pour discuter de votre compte. Comment puis-je vous aider?'')
       in generate_response g w a msg =
            Inr (denial,
                 a\<lparr>conversation_history := conversation_history a @
                      [cp ''Client: '' @ msg, cp ''Agent: '' @ denial]\<rparr>,
                 w)))"
proof (intro conjI impI)
  show "is_robot_question g (cp ''Are you a robot?'')" by (rule robot_example)
  show "\<not> is_robot_question g (cp ''I can pay tomorrow.'')" by (rule not_robot_example)
  show "is_robot_question g t \<longleftrightarrow>
      (\<exists>k \<in> set robot_keywords. \<exists>p q. str_lower g t = p @ k @ q)"
    by (simp add: is_robot_question_def Let_def list_ex_iff str_in_iff)
  show "is_robot_question g t = is_robot_question g t'"
    if "str_lower g t = str_lower g t'"
    using that by (simp add: is_robot_question_def)
next
  assume h: "is_robot_question g msg \<and> client_config a ''client_name'' = Some n"
  let ?tone = "case client_config a ''tone'' of None \<Rightarrow> cp ''professional'' | Some x \<Rightarrow> x"
  let ?denial = "if ?tone = cp ''formal'' then
                cp ''Non, je suis un conseiller professionnel de '' @ n @
                cp ''. Je suis ici pour vous aider avec votre compte. '' @
                cp ''Comment puis-je vous assister?''
              else if ?tone = cp ''collaborative'' then
                cp ''Non, absolument! Je suis une personne r'' @ [233] @ cp ''elle de '' @ n @
                cp ''. Je suis ici pour trouver une solution avec vous. '' @
                cp ''Comment je peux vous aider?''
              else
                cp ''Non, je suis un vrai conseiller de '' @ n @ cp ''. Je suis l'' @ [224] @
                cp '' pour discuter de votre compte. Comment puis-je vous aider?''"
  have r: "get_robot_response a = Inr ?denial"
    using conjunct2 [OF h]
    by (simp add: get_robot_response_def by_tone_def dict_get_def Let_def cp_def
        split: option.splits)
  from generate_response_robot [OF conjunct1 [OF h] r]
  show "let tone = ?tone; denial = (if tone = cp ''formal'' then
                cp ''Non, je suis un conseiller professionnel de '' @ n @
                cp ''. Je suis ici pour vous aider avec votre compte. '' @
                cp ''Comment puis-je vous assister?''
              else if tone = cp ''collaborative'' then
                cp ''Non, absolument! Je suis une personne r'' @ [233] @ cp ''elle de '' @ n @
                cp ''. Je suis ici pour trouver une solution avec vous. '' @
                cp ''Comment je peux vous aider?''
              else
                cp ''Non, je suis un vrai conseiller de '' @ n @ cp ''. Je suis l'' @ [224] @
                cp '' pour discuter de votre compte. Comment puis-je vous aider?'')
       in generate_response g w a msg =
            Inr (denial,
                 a\<lparr>conversation_history := conversation_history a @
                      [cp ''Client: '' @ msg, cp ''Agent: '' @ denial]\<rparr>,
                 w)"
    by (simp only: Let_def)
qed


theorem is_robot_question_short_circuit_witness:
  "(\<exists>k \<in> set robot_keywords. \<exists>p q.
      str_lower (demo_globals 10) (cp ''Are you a robot?'') = p @ k @ q) \<and>
   is_robot_question (demo_globals 10) (cp ''ARE YOU A ROBOT?'') =
     is_robot_question (demo_globals 10) (cp ''are you a robot?'') \<and>
   generate_response (demo_globals 10) (demo_world outage) demo_agent
     (cp ''Are you a robot?'') =
     Inr (cp ''Non, je suis un conseiller professionnel de Dell. Je suis ici pour vous aider avec votre compte. Comment puis-je vous assister?'',
          demo_agent\<lparr>conversation_history := conversation_history demo_agent @
            [cp ''Client: Are you a robot?'',
             cp ''Agent: Non, je suis un conseiller professionnel de Dell. Je suis ici pour vous aider avec votre compte. Comment puis-je vous assister?'']\<rparr>,
          demo_world outage) \<and>
   generate_response (demo_globals 10) (demo_world outage)
     (demo_agent\<lparr>client_config := [''client_name'' \<mapsto> cp ''Dell'']\<rparr>)
     (cp ''Vous etes un ROBOT?'') =
     Inr (cp ''Non, je suis un vrai conseiller de Dell. Je suis l'' @ [224] @
          cp '' pour discuter de votre compte. Comment puis-je vous aider?'',
          demo_agent\<lparr>client_config := [''client_name'' \<mapsto> cp ''Dell''],
            conversation_history := conversation_history demo_agent @
            [cp ''Client: Vous etes un ROBOT?'',
             cp ''Agent: Non, je suis un vrai conseiller de Dell. Je suis l'' @ [224] @
             cp '' pour discuter de votre compte. Comment puis-je vous aider?'']\<rparr>,
          demo_world outage)"
proof -
  note inst1 = is_robot_question_short_circuit
    [where g = "demo_globals 10" and t = "cp ''ARE YOU A ROBOT?''"
       and t' = "cp ''are you a robot?''" and msg = "cp ''Are you a robot?''"
       and a = demo_agent and n = "cp ''Dell''" and w = "demo_world outage"]
  note inst2 = is_robot_question_short_circuit
    [where g = "demo_globals 10" and t = "cp ''Are you a robot?''"
       and msg = "cp ''Vous etes un ROBOT?''"
       and a = "demo_agent\<lparr>client_config := [''client_name'' \<mapsto> cp ''Dell'']\<rparr>"
       and n = "cp ''Dell''" and w = "demo_world outage"]
  have l: "str_lower (demo_globals 10) (cp ''ARE YOU A ROBOT?'') =
           str_lower (demo_globals 10) (cp ''are you a robot?'')"
    by (simp add: str_lower_def cp_def lower_latin1_def)
  have h1: "is_robot_question (demo_globals 10) (cp ''Are you a robot?'') \<and>
      client_config demo_agent ''client_name'' = Some (cp ''Dell'')"
    by (simp add: robot_example demo_agent_def dell_profile_def)
  have q: "is_robot_question (demo_globals 10) (cp ''Vous etes un ROBOT?'')"
    by (simp add: is_robot_question_def str_lower_def cp_def lower_latin1_def
        robot_keywords_def)
  have h2: "is_robot_question (demo_globals 10) (cp ''Vous etes un ROBOT?'') \<and>
      client_config (demo_agent\<lparr>client_config := [''client_name'' \<mapsto> cp ''Dell'']\<rparr>)
        ''client_name'' = Some (cp ''Dell'')"
    using q by simp
  have k: "\<exists>k \<in> set robot_keywords. \<exists>p q.
      str_lower (demo_globals 10) (cp ''Are you a robot?'') = p @ k @ q"
    using inst2 by blast
  have c: "is_robot_question (demo_globals 10) (cp ''ARE YOU A ROBOT?'') =
     is_robot_question (demo_globals 10) (cp ''are you a robot?'')"
    using inst1 l by blast
  have r1: "generate_response (demo_globals 10) (demo_world outage) demo_agent
     (cp ''Are you a robot?'') =
     Inr (cp ''Non, je suis un conseiller professionnel de Dell. Je suis ici pour vous aider avec votre compte. Comment puis-je vous assister?'',
          demo_agent\<lparr>conversation_history := conversation_history demo_agent @
            [cp ''Client: Are you a robot?'',
             cp ''Agent: Non, je suis un conseiller professionnel de Dell. Je suis ici pour vous aider avec votre compte. Comment puis-je vous assister?'']\<rparr>,
          demo_world outage)"
    using inst1 [THEN conjunct2, THEN conjunct2, THEN conjunct2, THEN conjunct2,
                 rule_format, OF h1]
    by (simp add: Let_def demo_agent_def dell_profile_def cp_def)
  have r2: "generate_response (demo_globals 10) (demo_world outage)
     (demo_agent\<lparr>client_config := [''client_name'' \<mapsto> cp ''Dell'']\<rparr>)
     (cp ''Vous etes un ROBOT?'') =
     Inr (cp ''Non, je suis un vrai conseiller de Dell. Je suis l'' @ [224] @
          cp '' pour discuter de votre compte. Comment puis-je vous aider?'',
          demo_agent\<lparr>client_config := [''client_name'' \<mapsto> cp ''Dell''],
            conversation_history := conversation_history demo_agent @
            [cp ''Client: Vous etes un ROBOT?'',
             cp ''Agent: Non, je suis un vrai conseiller de Dell. Je suis l'' @ [224] @
             cp '' pour discuter de votre compte. Comment puis-je vous aider?'']\<rparr>,
          demo_world outage)"
    using inst2 [THEN conjunct2, THEN conjunct2, THEN conjunct2, THEN conjunct2,
                 rule_format, OF h2]
    by (simp add: Let_def demo_agent_def cp_def)
  from k c r1 r2 show ?thesis by blast
qed

subsection \<open>A history bound of zero\<close>

lemma join_example:
  "join [10] [a, b, c, d] = a @ [10] @ b @ [10] @ c @ [10] @ d"
  by simp

text \<open>
  C2. The context passed to the backend should hold at most \<^verbatim>\<open>MAX_HISTORY\<close> turns.
  With \<^verbatim>\<open>MAX_HISTORY = 0\<close> the slice \<^verbatim>\<open>history[-0:]\<close> is the whole history: an
  agent with three recorded turns sends all four turns, the new user turn included.
  (For a positive bound the window is the last \<^verbatim>\<open>MAX_HISTORY\<close> entries, see
  \<open>context_of_window\<close>, and the history only grows, see \<open>generate_response_returns\<close>
  and \<open>start_appends\<close>.)
\<close>

theorem max_history_zero_sends_whole_history:
  "MAX_HISTORY (demo_globals 0) = 0 \<and>
   length (conversation_history demo_agent @ [cp ''Client: '' @ cp ''ok'']) = 4 \<and>
   context_of (demo_globals 0) (conversation_history demo_agent @ [cp ''Client: '' @ cp ''ok'']) =
     cp ''Agent: Bonjour.'' @ [10] @ cp ''Client: Bonjour.'' @ [10] @ cp ''Agent: Oui?'' @ [10] @
     cp ''Client: ok'' \<and>
   generate_response (demo_globals 0) (demo_world farewell) demo_agent (cp ''ok'') =
     Inr (cp ''Merci et au revoir.'',
          demo_agent\<lparr>conversation_history := conversation_history demo_agent @
             [cp ''Client: '' @ cp ''ok'', cp ''Agent: '' @ cp ''Merci et au revoir.'']\<rparr>,
          (demo_world farewell)\<lparr>backend_state := (),
             calls := [(full_prompt_of (system_prompt demo_agent)
                          (cp ''Agent: Bonjour.'' @ [10] @ cp ''Client: Bonjour.'' @ [10] @
                           cp ''Agent: Oui?'' @ [10] @ cp ''Client: ok''),
                        Inr (cp ''Merci et au revoir.''))]\<rparr>)"
proof -
  have m: "MAX_HISTORY (demo_globals 0) = 0"
    by (simp add: demo_globals_def module_globals_def demo_doc_def)
  have h: "conversation_history demo_agent @ [cp ''Client: '' @ cp ''ok''] =
     [cp ''Agent: Bonjour.'', cp ''Client: Bonjour.'', cp ''Agent: Oui?'', cp ''Client: ok'']"
    by (simp add: demo_agent_def cp_def)
  have c: "context_of (demo_globals 0)
      (conversation_history demo_agent @ [cp ''Client: '' @ cp ''ok'']) =
     cp ''Agent: Bonjour.'' @ [10] @ cp ''Client: Bonjour.'' @ [10] @ cp ''Agent: Oui?'' @ [10] @
     cp ''Client: ok''"
    unfolding context_of_zero [OF m] h by (rule join_example)
  have g: "generate_content (demo_world farewell) (backend_state (demo_world farewell))
      (full_prompt_of (system_prompt demo_agent)
        (context_of (demo_globals 0)
          (conversation_history demo_agent @ [cp ''Client: '' @ cp ''ok'']))) =
      (Inr (cp ''Merci et au revoir.''), ())"
    by (simp add: demo_world_def farewell_def)
  have k: "calls (demo_world farewell) = []" by (simp add: demo_world_def)
  from generate_response_generated [OF not_robot_ok g]
  have "generate_response (demo_globals 0) (demo_world farewell) demo_agent (cp ''ok'') =
     Inr (cp ''Merci et au revoir.'',
          demo_agent\<lparr>conversation_history := conversation_history demo_agent @
             [cp ''Client: '' @ cp ''ok'', cp ''Agent: '' @ cp ''Merci et au revoir.'']\<rparr>,
          (demo_world farewell)\<lparr>backend_state := (),
             calls := [(full_prompt_of (system_prompt demo_agent)
                          (cp ''Agent: Bonjour.'' @ [10] @ cp ''Client: Bonjour.'' @ [10] @
                           cp ''Agent: Oui?'' @ [10] @ cp ''Client: ok''),
                        Inr (cp ''Merci et au revoir.''))]\<rparr>)"
    by (simp add: c k)
  with m c h show ?thesis by simp
qed

section \<open>Properties of the test harness\<close>

subsection \<open>One test run\<close>



lemma time_time_stdout [simp]: "stdout_accepts (snd (time_time w)) = stdout_accepts w"
  by (simp add: time_time_def)

lemma run_conversation_Inr:
  assumes "run_conversation g v w a r msgs = Inr (r', a', w')"
  shows "error_message r' = error_message r \<and>
         properly_closed r' = properly_closed r \<and>
         (conversation r \<noteq> [] \<longrightarrow> conversation r' \<noteq> [])"
  using assms
proof (induction msgs arbitrary: w a r)
  case Nil
  then show ?case by simp
next
  case (Cons m msgs)
  from Cons.prems obtain x a1 w2 where
    gr: "generate_response g (snd (time_time w)) a m = Inr (x, a1, w2)"
    by (auto simp: split_def Let_def split: sum.splits)
  let ?r1 = "add_exchange r m x (fst (time_time w2) - fst (time_time w))"
  from Cons.prems gr have
    "run_conversation g v (snd (time_time w2)) a1 ?r1 msgs = Inr (r', a', w')"
    by (auto simp: split_def Let_def split: option.splits if_splits)
  from Cons.IH [OF this] show ?case by (simp add: add_exchange_def)
qed

lemma run_conversation_Inl:
  assumes "run_conversation g v w a r msgs = Inl (e, r', w')"
  shows "properly_closed r' = properly_closed r"
  using assms
proof (induction msgs arbitrary: w a r)
  case Nil
  then show ?case by simp
next
  case (Cons m msgs)
  show ?case
  proof (cases "generate_response g (snd (time_time w)) a m")
    case (Inl bad)
    with Cons.prems show ?thesis by (auto simp: split_def Let_def)
  next
    case (Inr ok)
    obtain x a1 w2 where ok: "ok = (x, a1, w2)" by (cases ok)
    let ?r1 = "add_exchange r m x (fst (time_time w2) - fst (time_time w))"
    have pc: "properly_closed ?r1 = properly_closed r" by (simp add: add_exchange_def)
    show ?thesis
    proof (cases "if v then print_all (snd (time_time w2))
                    (verbose_lines m x (fst (time_time w2) - fst (time_time w))) else None")
      case None
      with Cons.prems Inr ok have
        "run_conversation g v (snd (time_time w2)) a1 ?r1 msgs = Inl (e, r', w')"
        by (auto simp: split_def Let_def split: if_splits)
      from Cons.IH [OF this] pc show ?thesis by simp
    next
      case (Some bad)
      with Cons.prems Inr ok have "r' = ?r1"
        by (auto simp: split_def Let_def split: if_splits)
      with pc show ?thesis by simp
    qed
  qed
qed


lemma run_single_test_try_Inl:
  assumes "run_single_test_try g w sc key i v = Inl (e, r, w')"
  shows "\<not> properly_closed r"
proof -
  let ?r0 = "new_TestResult (sc_name sc) key i"
  have p0: "\<not> properly_closed ?r0" by (simp add: new_TestResult_def)
  show ?thesis
  proof (cases "FrenchDebtCollectionAgent g w (Some key)")
    case (Inl bad)
    with assms p0 show ?thesis by (simp add: run_single_test_try_def)
  next
    case a0: (Inr a0)
    show ?thesis
    proof (cases "start a0")
      case (Inl bad)
      with assms a0 p0 show ?thesis by (simp add: run_single_test_try_def)
    next
      case (Inr ok)
      obtain greeting a1 where ok: "ok = (greeting, a1)" by (cases ok)
      let ?r1 = "?r0\<lparr>conversation := conversation ?r0 @
                  [\<lparr> user = cp ''[greeting]'', agent = greeting, response_time = 0 \<rparr>]\<rparr>"
      have p1: "\<not> properly_closed ?r1" by (simp add: new_TestResult_def)
      show ?thesis
      proof (cases "run_conversation g v w a1 ?r1 (sc_conversation sc)")
        case (Inl bad)
        obtain e1 rb wb where bad: "bad = (e1, rb, wb)" by (cases bad)
        from run_conversation_Inl [OF Inl [unfolded bad]] p1 have "\<not> properly_closed rb"
          by simp
        with assms a0 Inr ok Inl bad show ?thesis
          by (simp add: run_single_test_try_def Let_def)
      next
        case rc: (Inr fin)
        obtain r2 a2 w2 where fin: "fin = (r2, a2, w2)" by (cases fin)
        from run_conversation_Inr [OF rc [unfolded fin]] p1 have "\<not> properly_closed r2"
          by simp
        with assms a0 Inr ok rc fin show ?thesis
          by (auto simp: run_single_test_try_def Let_def split: list.splits)
      qed
    qed
  qed
qed

lemma run_single_test_try_Inr:
  assumes "run_single_test_try g w sc key i v = Inr (r, w')"
  shows "error_message r = None \<and> success r \<and> conversation r \<noteq> [] \<and>
         properly_closed r = closes g (agent (last (conversation r)))"
proof -
  let ?r0 = "new_TestResult (sc_name sc) key i"
  from assms obtain a0 where a0: "FrenchDebtCollectionAgent g w (Some key) = Inr a0"
    by (cases "FrenchDebtCollectionAgent g w (Some key)")
       (auto simp: run_single_test_try_def)
  from assms a0 obtain greeting a1 where st: "start a0 = Inr (greeting, a1)"
    by (cases "start a0") (auto simp: run_single_test_try_def)
  let ?r1 = "?r0\<lparr>conversation := conversation ?r0 @
                  [\<lparr> user = cp ''[greeting]'', agent = greeting, response_time = 0 \<rparr>]\<rparr>"
  from assms a0 st obtain r2 a2 w2 where
    rc: "run_conversation g v w a1 ?r1 (sc_conversation sc) = Inr (r2, a2, w2)"
    by (cases "run_conversation g v w a1 ?r1 (sc_conversation sc)")
       (auto simp: run_single_test_try_def Let_def)
  from run_conversation_Inr [OF rc]
  have em: "error_message r2 = None" and ne: "conversation r2 \<noteq> []"
    by (simp_all add: new_TestResult_def)
  from assms a0 st rc ne have
    "r = finalize (r2\<lparr>properly_closed := closes g (agent (last (conversation r2)))\<rparr>)
           (closes g (agent (last (conversation r2))))"
    by (auto simp: run_single_test_try_def Let_def split: list.splits)
  with em ne show ?thesis by (simp add: finalize_def)
qed






subsection \<open>Runs of a one-utterance scenario\<close>

lemma demo_globals_simps:
  "CLIENTS (demo_globals n) = [(cp ''dell'', dell_profile), (cp ''acme'', acme_profile)]"
  "MAX_HISTORY (demo_globals n) = n"
  "DEFAULT_CLIENT (demo_globals n) = None"
  "\<not> DEBUG (demo_globals n)"
  by (simp_all add: demo_globals_def module_globals_def demo_doc_def)

lemma demo_constructor:
  "\<exists>sp. FrenchDebtCollectionAgent (demo_globals n) w (Some (cp ''dell'')) =
     Inr \<lparr> client_key = cp ''dell'', client_config = dell_profile, system_prompt = sp,
           conversation_history = [] \<rparr>"
proof -
  have "dell_profile ''client_name'' = Some (cp ''Dell'')"
    and "dell_profile ''closing_line'' = Some (cp ''Merci et au revoir.'')"
    by (simp_all add: dell_profile_def)
  from build_system_prompt_present [OF this]
  show ?thesis
    by (simp add: FrenchDebtCollectionAgent_def demo_globals_simps cp_def)
qed


lemma not_robot_au_revoir: "\<not> is_robot_question (demo_globals n) (cp ''Au revoir.'')"
  by (simp add: is_robot_question_def str_lower_def cp_def lower_latin1_def robot_keywords_def)

lemma run_conversation_one_silent:
  assumes "\<not> is_robot_question g m"
    and "generate_content w (backend_state w) (full_prompt_of (system_prompt a)
        (context_of g (conversation_history a @ [cp ''Client: '' @ m]))) = (out, s)"
    and "\<And>e. out = Inl e \<Longrightarrow> writable w ([10] @ cp ''[ERREUR]: '' @ e @ [10])"
  shows "\<exists>t a' w'. run_conversation g False w a r [m] =
            Inr (add_exchange r m (reply_of out) t, a', w') \<and>
          calls w' = calls w @ [(full_prompt_of (system_prompt a)
             (context_of g (conversation_history a @ [cp ''Client: '' @ m])), out)]"
proof -
  let ?w1 = "snd (time_time w)"
  let ?p = "full_prompt_of (system_prompt a)
        (context_of g (conversation_history a @ [cp ''Client: '' @ m]))"
  have o1: "generate_content ?w1 (backend_state ?w1) ?p = (out, s)"
    using assms(2) by (simp add: time_time_def)
  show ?thesis
  proof (cases out)
    case (Inl e)
    have wr: "writable ?w1 ([10] @ cp ''[ERREUR]: '' @ e @ [10])"
      using assms(3) [OF Inl] by (simp add: time_time_def)
    from generate_response_raised [OF assms(1) o1 [unfolded Inl]] wr
    show ?thesis
      by (auto simp: time_time_def Let_def split_def reply_of_def Inl)
  next
    case (Inr t)
    from generate_response_generated [OF assms(1) o1 [unfolded Inr]]
    show ?thesis
      by (auto simp: time_time_def Let_def split_def reply_of_def Inr)
  qed
qed

lemma single_turn_run:
  assumes c: "FrenchDebtCollectionAgent g w (Some key) = Inr a0"
    and nr: "\<not> is_robot_question g m"
    and sc: "sc_conversation sc = [m]"
    and gen: "\<And>p. generate_content w (backend_state w) p = (out, s)"
    and wr: "\<And>e. out = Inl e \<Longrightarrow> writable w ([10] @ cp ''[ERREUR]: '' @ e @ [10])"
  shows "\<exists>r w' p. run_single_test_try g w sc key i False = Inr (r, w') \<and>
           agent (last (conversation r)) = reply_of out \<and>
           calls w' = calls w @ [(p, out)]"
proof -
  from FrenchDebtCollectionAgent_fields(1) [OF c]
  obtain n where n: "client_config a0 ''client_name'' = Some n" by blast
  from start_appends [OF n] obtain greeting a1 where st: "start a0 = Inr (greeting, a1)"
    by blast
  let ?r0 = "new_TestResult (sc_name sc) key i"
  let ?r1 = "?r0\<lparr>conversation := conversation ?r0 @
                [\<lparr> user = cp ''[greeting]'', agent = greeting, response_time = 0 \<rparr>]\<rparr>"
  from run_conversation_one_silent [OF nr gen wr, of a1 ?r1]
  obtain t a' w' where rc: "run_conversation g False w a1 ?r1 [m] =
            Inr (add_exchange ?r1 m (reply_of out) t, a', w')"
    and calls: "calls w' = calls w @ [(full_prompt_of (system_prompt a1)
             (context_of g (conversation_history a1 @ [cp ''Client: '' @ m])), out)]"
    by blast
  let ?r2 = "add_exchange ?r1 m (reply_of out) t"
  have conv: "conversation ?r2 =
      [\<lparr> user = cp ''[greeting]'', agent = greeting, response_time = 0 \<rparr>,
       \<lparr> user = m, agent = reply_of out, response_time = t \<rparr>]"
    by (simp add: add_exchange_def new_TestResult_def)
  have run: "run_single_test_try g w sc key i False =
      Inr (finalize (?r2\<lparr>properly_closed := closes g (reply_of out)\<rparr>)
         (closes g (reply_of out)), w')"
    by (simp add: run_single_test_try_def c st rc [folded sc] Let_def conv)
  have "agent (last (conversation
      (finalize (?r2\<lparr>properly_closed := closes g (reply_of out)\<rparr>)
         (closes g (reply_of out))))) = reply_of out"
    by (simp add: finalize_def conv)
  with run calls show ?thesis by blast
qed

lemma verbose_turn_aborts:
  assumes c: "FrenchDebtCollectionAgent g w (Some key) = Inr a0"
    and nr: "\<not> is_robot_question g m"
    and sc: "sc_conversation sc = m # rest"
    and gen: "\<And>p. generate_content w (backend_state w) p = (Inr t, s)"
    and nw: "\<not> stdout_accepts w 8594"
  shows "\<exists>e r w'. run_single_test_try g w sc key i True = Inl (e, r, w') \<and>
           conversation r \<noteq> [] \<and> agent (last (conversation r)) = t"
proof -
  from FrenchDebtCollectionAgent_fields(1) [OF c]
  obtain n where n: "client_config a0 ''client_name'' = Some n" by blast
  from start_appends [OF n] obtain greeting a1 where st: "start a0 = Inr (greeting, a1)"
    by blast
  let ?r0 = "new_TestResult (sc_name sc) key i"
  let ?r1 = "?r0\<lparr>conversation := conversation ?r0 @
                [\<lparr> user = cp ''[greeting]'', agent = greeting, response_time = 0 \<rparr>]\<rparr>"
  let ?w1 = "snd (time_time w)"
  have o1: "generate_content ?w1 (backend_state ?w1) (full_prompt_of (system_prompt a1)
        (context_of g (conversation_history a1 @ [cp ''Client: '' @ m]))) = (Inr t, s)"
    using gen by (simp add: time_time_def)
  note gr = generate_response_generated [OF nr o1]
  have pr: "print_all w3 (verbose_lines m t rt) =
      Some (UnicodeEncodeError (codec_message w3 (cp ''  '' @ [8594] @ cp '' User: '' @ m)))"
    if "stdout_accepts w3 = stdout_accepts w" for w3 :: "'a world" and rt
    using nw that by (simp add: verbose_lines_def py_print_def writable_def)
  have "\<exists>e rt w'. run_conversation g True w a1 ?r1 (m # rest) =
      Inl (e, add_exchange ?r1 m t rt, w')"
    by (auto simp: gr [unfolded time_time_def, simplified] time_time_def Let_def split_def pr)
  then obtain e rt w' where rc: "run_conversation g True w a1 ?r1 (m # rest) =
      Inl (e, add_exchange ?r1 m t rt, w')"
    by blast
  have "run_single_test_try g w sc key i True = Inl (e, add_exchange ?r1 m t rt, w')"
    by (simp add: run_single_test_try_def c st rc [folded sc] Let_def)
  moreover have "conversation (add_exchange ?r1 m t rt) \<noteq> []"
    and "agent (last (conversation (add_exchange ?r1 m t rt))) = t"
    by (simp_all add: add_exchange_def)
  ultimately show ?thesis by blast
qed


subsection \<open>Latency statistics\<close>

lemma max_list_Max:
  assumes "xs \<noteq> []"
  shows "max_list xs = Max (set xs)"
proof -
  from assms obtain y ys where "xs = y # ys" by (cases xs) auto
  then show ?thesis
    unfolding max_list_def using Max.set_eq_fold [of y ys] by simp
qed

lemma p95_index: "0 < n \<Longrightarrow> 19 * n div 20 < (n::nat)"
  by (simp add: div_less_iff_less_mult)

lemma p95_index_small: "0 < n \<Longrightarrow> n \<le> 20 \<Longrightarrow> 19 * n div 20 = (n::nat) - 1"
  by arith

lemma p95_in_set:
  assumes "xs \<noteq> []"
  shows "p95 xs \<in> set xs"
proof -
  have "0 < length xs" using assms by simp
  then have "19 * length xs div 20 < length (sort xs)" by (simp add: p95_index)
  then have "sort xs ! (19 * length xs div 20) \<in> set (sort xs)" by (rule nth_mem)
  then show ?thesis by (simp add: p95_def)
qed

lemma p95_le_max:
  assumes "xs \<noteq> []"
  shows "p95 xs \<le> max_list xs"
  using p95_in_set [OF assms] by (simp add: max_list_Max [OF assms])

lemma sum_list_le_max:
  fixes xs :: "real list"
  assumes "xs \<noteq> []"
  shows "sum_list xs \<le> real (length xs) * Max (set xs)"
proof -
  have "sum_list (map (\<lambda>x. x) xs) \<le> sum_list (map (\<lambda>x. Max (set xs)) xs)"
    by (rule sum_list_mono) simp
  then show ?thesis by (simp add: sum_list_triv)
qed

lemma mean_le_max:
  assumes "xs \<noteq> []"
  shows "mean xs \<le> max_list xs"
proof -
  have "0 < real (length xs)" using assms by simp
  with sum_list_le_max [OF assms] show ?thesis
    by (simp add: mean_def max_list_Max [OF assms] pos_divide_le_eq mult.commute)
qed

lemma p95_small_is_max:
  assumes "xs \<noteq> []" and "length xs \<le> 20"
  shows "p95 xs = max_list xs"
proof -
  have n: "0 < length xs" using assms by simp
  have idx: "19 * length xs div 20 = length xs - 1"
    using p95_index_small [OF n assms(2)] .
  have "\<forall>x \<in> set xs. x \<le> sort xs ! (length xs - 1)"
  proof
    fix x assume "x \<in> set xs"
    then have "x \<in> set (sort xs)" by simp
    then obtain i where i: "i < length (sort xs)" "sort xs ! i = x"
      by (metis in_set_conv_nth)
    have "sort xs ! i \<le> sort xs ! (length xs - 1)"
      by (rule sorted_nth_mono) (use i n in auto)
    with i show "x \<le> sort xs ! (length xs - 1)" by simp
  qed
  moreover have "sort xs ! (length xs - 1) \<in> set xs"
    using p95_in_set [OF assms(1)] by (simp add: p95_def idx)
  ultimately have "Max (set xs) = sort xs ! (length xs - 1)"
    by (intro Max_eqI) auto
  then show ?thesis by (simp add: p95_def idx max_list_Max [OF assms(1)])
qed

lemma analyze_results_fields:
  assumes "results \<noteq> []"
  shows "\<exists>rep. analyze_results results = Some rep \<and>
           total_tests rep = length results \<and>
           avg_response_time rep =
             (if concat (map response_times results) \<noteq> []
              then mean (concat (map response_times results)) else 0) \<and>
           p95_response_time rep =
             (if concat (map response_times results) \<noteq> []
              then p95 (concat (map response_times results)) else 0) \<and>
           max_response_time rep =
             (if concat (map response_times results) \<noteq> []
              then max_list (concat (map response_times results)) else 0) \<and>
           hand_off_rate rep =
             real (length (filter properly_closed results)) / real (length results) * 100"
  unfolding analyze_results_def Let_def using assms by simp

text \<open>
  C6 (as the code has it). For every collection of results with at least one latency,
  the 95th-percentile latency of the report is at most the maximum latency, and so is
  the mean. The 95th-percentile latency is at least the mean whenever the pooled sample
  has at most 20 latencies, where the index \<open>19 * n div 20\<close> is the last one and the
  percentile is the maximum; for a larger sample it can be below the mean.
\<close>

theorem p95_between:
  assumes "concat (map response_times results) \<noteq> []"
  shows "\<exists>rep. analyze_results results = Some rep \<and>
           p95_response_time rep \<le> max_response_time rep \<and>
           avg_response_time rep \<le> max_response_time rep \<and>
           (length (concat (map response_times results)) \<le> 20 \<longrightarrow>
              avg_response_time rep \<le> p95_response_time rep)"
proof -
  let ?xs = "concat (map response_times results)"
  have ne: "results \<noteq> []" using assms by auto
  from analyze_results_fields [OF ne] obtain rep where
    rep: "analyze_results results = Some rep"
    and avg: "avg_response_time rep = mean ?xs"
    and p: "p95_response_time rep = p95 ?xs"
    and m: "max_response_time rep = max_list ?xs"
    using assms by (auto simp del: concat_eq_Nil_conv)
  have a: "p95 ?xs \<le> max_list ?xs" by (rule p95_le_max [OF assms])
  have b: "mean ?xs \<le> max_list ?xs" by (rule mean_le_max [OF assms])
  have c: "mean ?xs \<le> p95 ?xs" if "length ?xs \<le> 20"
    unfolding p95_small_is_max [OF assms that] by (rule b)
  show ?thesis
  proof (intro exI conjI impI)
    show "analyze_results results = Some rep" by (rule rep)
    show "p95_response_time rep \<le> max_response_time rep" unfolding p m by (rule a)
    show "avg_response_time rep \<le> max_response_time rep" unfolding avg m by (rule b)
    show "avg_response_time rep \<le> p95_response_time rep" if "length ?xs \<le> 20"
      unfolding avg p by (rule c [OF that])
  qed
qed

theorem p95_between_witness:
  "\<exists>rep. analyze_results [two_turns] = Some rep \<and>
     p95_response_time rep \<le> max_response_time rep \<and>
     avg_response_time rep \<le> max_response_time rep \<and>
     avg_response_time rep \<le> p95_response_time rep"
proof -
  have t: "concat (map response_times [two_turns]) = [1, 3]"
    by (simp add: two_turns_def new_TestResult_def)
  have ne: "concat (map response_times [two_turns]) \<noteq> []" unfolding t by simp
  have le: "length (concat (map response_times [two_turns])) \<le> 20" unfolding t by simp
  from p95_between [OF ne] le show ?thesis by blast
qed

text \<open>
  Twenty latencies of one second and one of twenty-two: the index is
  \<open>19 * 21 div 20 = 19\<close>, the twentieth value of the sorted sample, which is 1, and the
  mean is 2.
\<close>

lemma slow_tail_times:
  "concat (map response_times [slow_tail]) =
     [1, 1, 1, 1, 1, 1, 1, 1, 1, 1, 1, 1, 1, 1, 1, 1, 1, 1, 1, 1, 22]"
  by (simp add: slow_tail_def new_TestResult_def)

lemma slow_tail_p95:
  "p95 [1, 1, 1, 1, 1, 1, 1, 1, 1, 1, 1, 1, 1, 1, 1, 1, 1, 1, 1, 1, 22] = 1"
proof -
  have "sorted [1, 1, 1, 1, 1, 1, 1, 1, 1, 1, 1, 1, 1, 1, 1, 1, 1, 1, 1, 1, 22 :: real]"
    by simp
  then have "sort [1, 1, 1, 1, 1, 1, 1, 1, 1, 1, 1, 1, 1, 1, 1, 1, 1, 1, 1, 1, 22 :: real] =
     [1, 1, 1, 1, 1, 1, 1, 1, 1, 1, 1, 1, 1, 1, 1, 1, 1, 1, 1, 1, 22]"
    by (rule sorted_sort_id)
  then show ?thesis by (simp add: p95_def)
qed

lemma slow_tail_mean:
  "mean [1, 1, 1, 1, 1, 1, 1, 1, 1, 1, 1, 1, 1, 1, 1, 1, 1, 1, 1, 1, 22] = 2"
  by (simp add: mean_def)

lemma slow_tail_max:
  "max_list [1, 1, 1, 1, 1, 1, 1, 1, 1, 1, 1, 1, 1, 1, 1, 1, 1, 1, 1, 1, 22] = 22"
  by (simp add: max_list_def)

theorem p95_below_mean:
  "analyze_results [slow_tail] =
     Some \<lparr> total_tests = 1, passed_tests = 1, success_rate = 100, avg_response_time = 2,
            p95_response_time = 1, max_response_time = 22, hand_off_rate = 0 \<rparr> \<and>
   p95_response_time (the (analyze_results [slow_tail])) <
     avg_response_time (the (analyze_results [slow_tail]))"
proof -
  have s: "success slow_tail" "\<not> properly_closed slow_tail"
    by (simp_all add: slow_tail_def new_TestResult_def)
  have "analyze_results [slow_tail] =
     Some \<lparr> total_tests = 1, passed_tests = 1, success_rate = 100, avg_response_time = 2,
            p95_response_time = 1, max_response_time = 22, hand_off_rate = 0 \<rparr>"
    unfolding analyze_results_def Let_def slow_tail_times slow_tail_p95 slow_tail_mean
      slow_tail_max
    by (simp add: s)
  then show ?thesis by simp
qed

subsection \<open>The hand-off rate\<close>

text \<open>Lower-casing and then looking for the phrase is containment with the case ignored.\<close>

lemma ci_prefix_lower:
  "ci_prefix k t = prefix (map lower_latin1 k) (map lower_latin1 t)"
  by (induction k t rule: ci_prefix.induct) auto

lemma ci_in_lower: "ci_in k t = str_in (map lower_latin1 k) (map lower_latin1 t)"
  by (induction t) (simp_all add: ci_prefix_lower)

lemma closing_indicators_lower:
  "p \<in> set closing_indicators \<Longrightarrow> map lower_latin1 p = p"
  by (auto simp: closing_indicators_def cp_def lower_latin1_def)

lemma closes_ci:
  "closes g t =
     (if list_all (\<lambda>c. c < 256) t
      then list_ex (\<lambda>phrase. ci_in phrase t) closing_indicators
      else list_ex (\<lambda>phrase. str_in phrase (unicode_lower g t)) closing_indicators)"
  by (auto simp: closes_def str_lower_def Let_def list_ex_iff ci_in_lower
      closing_indicators_lower)

lemma run_single_test_properly_closed:
  "properly_closed (fst (run_single_test g w sc key i v)) \<longleftrightarrow>
     \<not> isl (run_single_test_try g w sc key i v) \<and>
     final_utterance_closes g (fst (run_single_test g w sc key i v))"
proof (cases "run_single_test_try g w sc key i v")
  case (Inl bad)
  obtain e r w' where bad: "bad = (e, r, w')" by (cases bad)
  from run_single_test_try_Inl [OF Inl [unfolded bad]] Inl bad show ?thesis
    by (simp add: run_single_test_def set_error_def)
next
  case (Inr ok)
  obtain r w' where ok: "ok = (r, w')" by (cases ok)
  from run_single_test_try_Inr [OF Inr [unfolded ok]]
  have ne: "conversation r \<noteq> []"
    and pc: "properly_closed r = closes g (agent (last (conversation r)))"
    by simp_all
  have "final_utterance_closes g r = closes g (agent (last (conversation r)))"
    using ne by (simp add: final_utterance_closes_def closes_ci Let_def split: list.splits)
  with pc Inr ok show ?thesis by (simp add: run_single_test_def)
qed

lemma result_of_properly_closed:
  "properly_closed (result_of x) \<longleftrightarrow> run_completed x \<and> run_closes x"
  by (cases x)
     (simp add: result_of_def run_completed_def run_closes_def run_single_test_properly_closed)

lemma filter_properly_closed_runs:
  "length (filter properly_closed (map (\<lambda>x. (result_of x)\<lparr>success := f x\<rparr>) runs)) =
     length (filter (\<lambda>x. run_completed x \<and> run_closes x) runs)"
  by (induction runs) (simp_all add: result_of_properly_closed)

text \<open>
  C7 (as the code has it). For every non-empty collection of harness results, the
  hand-off rate of the report is the fraction, as a percentage, of the results of runs
  that ran to their end, no exception reaching the harness, and whose final agent
  utterance contains one of the closing-acknowledgement phrases, letter case ignored. A
  run that an exception ended counts as not closed, whatever its last recorded
  utterance. The rate is computed from the properly-closed flags alone: it is the same
  whatever the success flags of the results are.
\<close>

theorem hand_off_rate_fraction:
  assumes "runs \<noteq> []"
  shows "\<exists>rep. analyze_results (map result_of runs) = Some rep \<and>
           hand_off_rate rep =
             real (length (filter (\<lambda>x. run_completed x \<and> run_closes x) runs)) /
             real (length runs) * 100 \<and>
           (\<forall>f. \<exists>rep'. analyze_results (map (\<lambda>x. (result_of x)\<lparr>success := f x\<rparr>) runs) =
                         Some rep' \<and>
                       hand_off_rate rep' = hand_off_rate rep)"
proof -
  have any: "\<exists>rep'. analyze_results (map (\<lambda>x. (result_of x)\<lparr>success := f x\<rparr>) runs) =
                         Some rep' \<and>
     hand_off_rate rep' =
       real (length (filter (\<lambda>x. run_completed x \<and> run_closes x) runs)) /
       real (length runs) * 100"
    for f
  proof -
    have ne: "map (\<lambda>x. (result_of x)\<lparr>success := f x\<rparr>) runs \<noteq> []" using assms by simp
    from analyze_results_fields [OF ne] show ?thesis
      unfolding filter_properly_closed_runs by auto
  qed
  from any [of "\<lambda>x. success (result_of x)"] obtain rep where
    rep: "analyze_results (map result_of runs) = Some rep"
    and rate: "hand_off_rate rep =
      real (length (filter (\<lambda>x. run_completed x \<and> run_closes x) runs)) /
      real (length runs) * 100"
    by auto
  have "\<forall>f. \<exists>rep'. analyze_results (map (\<lambda>x. (result_of x)\<lparr>success := f x\<rparr>) runs) =
                         Some rep' \<and> hand_off_rate rep' = hand_off_rate rep"
    using any rate by simp
  with rep rate show ?thesis by blast
qed

text \<open>
  Two silent runs on a strict UTF-8 output, one that ends in a farewell in capitals and
  one during an outage: both run to their end, one of the two closes.
\<close>

lemma demo_scenario_conversation: "sc_conversation demo_scenario = [cp ''Au revoir.'']"
  by (simp add: demo_scenario_def)

lemma final_utterance_closes_nonempty:
  assumes "conversation r \<noteq> []"
  shows "final_utterance_closes g r =
     (if list_all (\<lambda>c. c < 256) (agent (last (conversation r)))
      then list_ex (\<lambda>phrase. ci_in phrase (agent (last (conversation r)))) closing_indicators
      else list_ex (\<lambda>phrase. str_in phrase (unicode_lower g (agent (last (conversation r)))))
             closing_indicators)"
  using assms by (cases "conversation r") (simp_all add: final_utterance_closes_def Let_def)

lemma demo_silent_run:
  assumes that: "list_all (\<lambda>c. c < 256) (reply_of out)"
    and gen: "\<And>p. f () p = (out, ())"
    and wr: "\<And>e. out = Inl e \<Longrightarrow> list_all (\<lambda>c. c < 128) e"
  shows "run_completed (demo_run (demo_world f) False)"
    and "run_closes (demo_run (demo_world f) False) =
           list_ex (\<lambda>phrase. ci_in phrase (reply_of out)) closing_indicators"
proof -
  let ?g = "demo_globals 10" and ?w = "demo_world f"
  from demo_constructor [of 10 ?w] obtain a0 where
    c: "FrenchDebtCollectionAgent ?g ?w (Some (cp ''dell'')) = Inr a0" by blast
  have gen': "generate_content ?w (backend_state ?w) p = (out, ())" for p
    by (simp add: demo_world_def gen)
  have wr': "writable ?w ([10] @ cp ''[ERREUR]: '' @ e @ [10])" if "out = Inl e" for e
    using wr [OF that] by (auto simp: writable_def cp_def list_all_iff)
  from single_turn_run [OF c not_robot_au_revoir demo_scenario_conversation gen' wr', of 1]
  obtain r w' where run: "run_single_test_try ?g ?w demo_scenario (cp ''dell'') 1 False =
      Inr (r, w')"
    and last: "agent (last (conversation r)) = reply_of out"
    by blast
  from run show "run_completed (demo_run (demo_world f) False)"
    by (simp add: run_completed_def demo_run_def)
  from run_single_test_try_Inr [OF run] have ne: "conversation r \<noteq> []" by simp
  have "result_of (demo_run (demo_world f) False) = r"
    by (simp add: result_of_def demo_run_def run_single_test_def run)
  then show "run_closes (demo_run (demo_world f) False) =
           list_ex (\<lambda>phrase. ci_in phrase (reply_of out)) closing_indicators"
    using last that
    by (simp add: run_closes_def demo_run_def final_utterance_closes_nonempty [OF ne])
qed

lemma loud_farewell_run:
  "run_completed (demo_run (demo_world loud_farewell) False)"
  "run_closes (demo_run (demo_world loud_farewell) False)"
proof -
  have gen: "loud_farewell () p = (Inr (cp ''MERCI, AU REVOIR.''), ())" for p
    by (simp add: loud_farewell_def)
  have l1: "list_all (\<lambda>c. c < 256) (reply_of (Inr (cp ''MERCI, AU REVOIR.'')))"
    by (simp add: reply_of_def cp_def)
  note run = demo_silent_run
    [where f = loud_farewell and out = "Inr (cp ''MERCI, AU REVOIR.'')", OF l1 gen]
  from run(1)
  show "run_completed (demo_run (demo_world loud_farewell) False)" by simp
  have "list_ex (\<lambda>phrase. ci_in phrase (cp ''MERCI, AU REVOIR.'')) closing_indicators"
    by (simp add: closing_indicators_def cp_def lower_latin1_def)
  with run(2)
  show "run_closes (demo_run (demo_world loud_farewell) False)"
    by (simp add: reply_of_def)
qed

lemma outage_run:
  "run_completed (demo_run (demo_world outage) False)"
  "\<not> run_closes (demo_run (demo_world outage) False)"
proof -
  have gen: "outage () p = (Inl (cp ''503 Service Unavailable''), ())" for p
    by (simp add: outage_def)
  have l1: "list_all (\<lambda>c. c < 256) (reply_of (Inl (cp ''503 Service Unavailable'')))"
    by (simp add: reply_of_def error_msg_def cp_def)
  have wr: "list_all (\<lambda>c. c < 128) e" if "Inl (cp ''503 Service Unavailable'') = Inl e"
    for e :: ustr
    using that by (auto simp: cp_def)
  note run = demo_silent_run
    [where f = outage and out = "Inl (cp ''503 Service Unavailable'')", OF l1 gen wr]
  from run(1)
  show "run_completed (demo_run (demo_world outage) False)" by simp
  have "\<not> list_ex (\<lambda>phrase. ci_in phrase error_msg) closing_indicators"
    by (simp add: closing_indicators_def error_msg_def cp_def lower_latin1_def)
  with run(2)
  show "\<not> run_closes (demo_run (demo_world outage) False)"
    by (simp add: reply_of_def)
qed

theorem hand_off_rate_fraction_witness:
  "\<exists>rep rep'.
     analyze_results
       (map result_of [demo_run (demo_world loud_farewell) False,
                       demo_run (demo_world outage) False]) = Some rep \<and>
     hand_off_rate rep = 50 \<and>
     analyze_results
       (map (\<lambda>x. (result_of x)\<lparr>success := False\<rparr>)
          [demo_run (demo_world loud_farewell) False, demo_run (demo_world outage) False]) =
       Some rep' \<and>
     hand_off_rate rep' = 50"
proof -
  let ?runs = "[demo_run (demo_world loud_farewell) False, demo_run (demo_world outage) False]"
  have ne: "?runs \<noteq> []" by simp
  have n: "real (length (filter (\<lambda>x. run_completed x \<and> run_closes x) ?runs)) /
      real (length ?runs) * 100 = 50"
    by (simp add: loud_farewell_run outage_run)
  from hand_off_rate_fraction [OF ne] obtain rep where
    rep: "analyze_results (map result_of ?runs) = Some rep"
    and rate: "hand_off_rate rep =
      real (length (filter (\<lambda>x. run_completed x \<and> run_closes x) ?runs)) /
      real (length ?runs) * 100"
    and f: "\<forall>f. \<exists>rep'. analyze_results
       (map (\<lambda>x. (result_of x)\<lparr>success := f x\<rparr>) ?runs) =
       Some rep' \<and> hand_off_rate rep' = hand_off_rate rep"
    by blast
  from f [rule_format, of "\<lambda>x. False"] obtain rep' where
    "analyze_results (map (\<lambda>x. (result_of x)\<lparr>success := False\<rparr>) ?runs) = Some rep'"
    and "hand_off_rate rep' = hand_off_rate rep"
    by blast
  with rep rate n show ?thesis by auto
qed

text \<open>
  A verbose run on a Latin-1 console: the backend answers the first utterance with a
  farewell, the first verbose line holds the arrow U+2192, which the console cannot
  write, and the exception of \<^verbatim>\<open>print\<close> ends the run. The last recorded agent
  utterance is the farewell, and the run counts as not closed.
\<close>

lemma console_run:
  "\<not> run_completed (demo_run (console_world farewell) True)"
  "run_closes (demo_run (console_world farewell) True)"
  "\<not> properly_closed (result_of (demo_run (console_world farewell) True))"
proof -
  let ?g = "demo_globals 10" and ?w = "console_world farewell"
  from demo_constructor [of 10 ?w] obtain a0 where
    c: "FrenchDebtCollectionAgent ?g ?w (Some (cp ''dell'')) = Inr a0" by blast
  have gen: "generate_content ?w (backend_state ?w) p = (Inr (cp ''Merci et au revoir.''), ())"
    for p
    by (simp add: console_world_def demo_world_def farewell_def)
  have nw: "\<not> stdout_accepts ?w 8594"
    by (simp add: console_world_def latin1_only_def)
  from verbose_turn_aborts [OF c not_robot_au_revoir demo_scenario_conversation gen nw, of 1]
  obtain e r w' where run: "run_single_test_try ?g ?w demo_scenario (cp ''dell'') 1 True =
      Inl (e, r, w')"
    and ne: "conversation r \<noteq> []"
    and last: "agent (last (conversation r)) = cp ''Merci et au revoir.''"
    by blast
  from run show nc: "\<not> run_completed (demo_run (console_world farewell) True)"
    by (simp add: run_completed_def demo_run_def)
  have res: "result_of (demo_run (console_world farewell) True) = set_error r (err_str e)"
    by (simp add: result_of_def demo_run_def run_single_test_def run)
  have "list_ex (\<lambda>phrase. ci_in phrase (cp ''Merci et au revoir.'')) closing_indicators"
    by (simp add: closing_indicators_def cp_def lower_latin1_def)
  moreover have "list_all (\<lambda>c. c < 256) (cp ''Merci et au revoir.'')" by (simp add: cp_def)
  moreover have "conversation (set_error r (err_str e)) = conversation r"
    by (simp add: set_error_def)
  ultimately show cl: "run_closes (demo_run (console_world farewell) True)"
    using ne last res
    by (simp add: run_closes_def demo_run_def final_utterance_closes_nonempty)
  from nc show "\<not> properly_closed (result_of (demo_run (console_world farewell) True))"
    by (simp add: result_of_properly_closed)
qed

theorem aborted_run_not_counted:
  "hand_off_rate (the (analyze_results (map result_of [demo_run (console_world farewell) True])))
     = 0 \<and>
   run_closes (demo_run (console_world farewell) True) \<and>
   real (length (filter run_closes [demo_run (console_world farewell) True])) /
     real (length [demo_run (console_world farewell) True]) * 100 = 100"
proof -
  have ne: "map result_of [demo_run (console_world farewell) True] \<noteq> []" by simp
  from analyze_results_fields [OF ne]
  obtain rep where
    rep: "analyze_results (map result_of [demo_run (console_world farewell) True]) = Some rep"
    and rate: "hand_off_rate rep =
      real (length (filter properly_closed
        (map result_of [demo_run (console_world farewell) True]))) /
      real (length (map result_of [demo_run (console_world farewell) True])) * 100"
    by auto
  from rate have "hand_off_rate rep = 0" by (simp add: console_run)
  with rep show ?thesis by (simp add: console_run)
qed

section \<open>Properties of configuration loading\<close>

text \<open>
  C8 (as the code has it). \<^verbatim>\<open>load_config\<close> does not look at the profiles: whenever
  the file exists and parses, it returns the document, whatever fields its profiles
  have. A profile without \<^verbatim>\<open>client_name\<close> or \<^verbatim>\<open>closing_line\<close> makes the
  construction of an agent for that client fail with \<^verbatim>\<open>KeyError\<close>, at the first
  use of the profile and before any operation of that agent can be called.
\<close>

theorem load_config_does_not_validate:
  assumes "fs path = Some (Inr doc)"
  shows "load_config fs path = Inr doc \<and>
         (\<forall>key p. map_of (CLIENTS (module_globals doc dc dbg ul)) key = Some p \<and>
                  (p ''client_name'' = None \<or> p ''closing_line'' = None)
            \<longrightarrow> (\<exists>k. FrenchDebtCollectionAgent (module_globals doc dc dbg ul) w (Some key) =
                       Inl (KeyError k)))"
proof (intro conjI allI impI)
  show "load_config fs path = Inr doc" using assms by (simp add: load_config_def)
next
  fix key p
  assume h: "map_of (CLIENTS (module_globals doc dc dbg ul)) key = Some p \<and>
                  (p ''client_name'' = None \<or> p ''closing_line'' = None)"
  from build_system_prompt_fails_KeyError [OF conjunct2 [OF h]]
  obtain k where "build_system_prompt p = Inl (KeyError k)" ..
  with h show "\<exists>k. FrenchDebtCollectionAgent (module_globals doc dc dbg ul) w (Some key) =
                       Inl (KeyError k)"
    by (simp add: FrenchDebtCollectionAgent_def)
qed

theorem load_config_does_not_validate_witness:
  "load_config demo_fs (cp ''./config.yaml'') = Inr (demo_doc 10) \<and>
   (\<exists>k. FrenchDebtCollectionAgent (module_globals (demo_doc 10) None False id)
          (demo_world farewell) (Some (cp ''acme'')) = Inl (KeyError k))"
proof -
  have f: "demo_fs (cp ''./config.yaml'') = Some (Inr (demo_doc 10))"
    by (simp add: demo_fs_def)
  have h: "map_of (CLIENTS (module_globals (demo_doc 10) None False id)) (cp ''acme'') =
             Some acme_profile \<and>
           (acme_profile ''client_name'' = None \<or> acme_profile ''closing_line'' = None)"
    by (simp add: module_globals_def demo_doc_def cp_def acme_profile_def)
  note inst = load_config_does_not_validate
    [where fs = demo_fs and path = "cp ''./config.yaml''" and doc = "demo_doc 10"
       and dc = None and dbg = False and ul = id and w = "demo_world farewell"]
  from inst [OF f] h show ?thesis by blast
qed

text \<open>
  The configuration file whose second profile has no closing line is loaded without
  error.
\<close>

theorem load_config_accepts_incomplete_profile:
  "load_config demo_fs (cp ''./config.yaml'') = Inr (demo_doc 10) \<and>
   doc_clients (demo_doc 10) = Some [(cp ''dell'', dell_profile), (cp ''acme'', acme_profile)] \<and>
   acme_profile ''closing_line'' = None"
  by (simp add: load_config_def demo_fs_def demo_doc_def acme_profile_def)

end
